theory Spec2Isabelle
  imports Complex_Main "HOL-Library.Sublist"
begin

section \<open>Python values used by tools/import-svg-to-ufo.py\<close>

text \<open>
  The script is straight-line Python over dynamically typed values: strings, integers,
  floats, lists and dictionaries read from a YAML document and from property lists.
  Every exception the script can raise is a value of \<open>error\<close>; a computation that can
  raise returns \<open>error + 'a\<close> with \<open>Inl\<close> for the exception.
\<close>

datatype error =
    KeyError | TypeError | ValueError | IndexError | AttributeError | OverflowError
  | IOError | ParseError | YAMLError | UFOLibError | ArgumentTypeError | LibraryError

subsection \<open>Floats\<close>

text \<open>
  A Python float is an IEEE 754 binary64 number. It is modelled by its exact rational
  value, or an infinity, or NaN; the sign of a zero is not kept. \<open>b64_round\<close> rounds an
  exact rational to the nearest binary64 value, ties to even, with gradual underflow
  (quantum \<open>2 powi (- 1074)\<close>) and overflow to an infinity.
\<close>

datatype pyfloat = Finite rat | PosInf | NegInf | NaN

fun bitlen :: "nat \<Rightarrow> nat" where
  "bitlen n = (if n = 0 then 0 else Suc (bitlen (n div 2)))"

declare bitlen.simps [simp del]

definition ilog2 :: "rat \<Rightarrow> int" where
  "ilog2 x = (let (p, q) = quotient_of x;
                  k = int (bitlen (nat p)) - int (bitlen (nat q))
              in if 2 powi k \<le> x then k else k - 1)"

definition round_half_even :: "rat \<Rightarrow> int" where
  "round_half_even x = (let n = \<lfloor>x\<rfloor>; r = x - of_int n
     in if r < 1 / 2 then n else if 1 / 2 < r then n + 1 else if even n then n else n + 1)"

definition b64_round :: "rat \<Rightarrow> pyfloat" where
  "b64_round x = (if x = 0 then Finite 0 else
     let a = \<bar>x\<bar>;
         q = 2 powi (max (ilog2 a - 52) (- 1074));
         r = of_int (round_half_even (a / q)) * q
     in if 1024 \<le> ilog2 r then (if 0 < x then PosInf else NegInf)
        else Finite (if 0 < x then r else - r))"

text \<open>Float addition, \<open>x + y\<close> on two floats.\<close>

fun fadd :: "pyfloat \<Rightarrow> pyfloat \<Rightarrow> pyfloat" where
  "fadd (Finite x) (Finite y) = b64_round (x + y)"
| "fadd NaN _ = NaN"
| "fadd _ NaN = NaN"
| "fadd PosInf NegInf = NaN"
| "fadd NegInf PosInf = NaN"
| "fadd PosInf _ = PosInf"
| "fadd _ PosInf = PosInf"
| "fadd NegInf _ = NegInf"
| "fadd _ NegInf = NegInf"

text \<open>
  The conversion of an integer operand in \<open>float + int\<close>: correctly rounded, and
  OverflowError when the integer is beyond the range of a float.
\<close>

definition int_to_float :: "int \<Rightarrow> error + pyfloat" where
  "int_to_float i = (case b64_round (of_int i) of
       Finite r \<Rightarrow> Inr (Finite r)
     | _ \<Rightarrow> Inl OverflowError)"

definition float_add_int :: "pyfloat \<Rightarrow> int \<Rightarrow> error + pyfloat" where
  "float_add_int x i = (case int_to_float i of
       Inl e \<Rightarrow> Inl e
     | Inr y \<Rightarrow> Inr (fadd x y))"

subsection \<open>Integers below \<open>2 ^ 53\<close> are floats\<close>

lemma bitlen_pos: "0 < n \<Longrightarrow> 0 < bitlen n"
  by (subst bitlen.simps) simp

lemma bitlen_lower: "0 < n \<Longrightarrow> 2 ^ (bitlen n - 1) \<le> n"
proof (induction n rule: bitlen.induct)
  case (1 n)
  show ?case
  proof (cases "n div 2 = 0")
    case True
    then have "n = 1" using 1(2) by presburger
    then show ?thesis by (simp add: bitlen.simps)
  next
    case False
    then have ih: "2 ^ (bitlen (n div 2) - 1) \<le> n div 2" using 1 by simp
    have pos: "0 < bitlen (n div 2)" using False by (simp add: bitlen_pos)
    have "bitlen n = Suc (bitlen (n div 2))" using 1(2) by (subst bitlen.simps) simp
    then have "(2::nat) ^ (bitlen n - 1) = 2 * 2 ^ (bitlen (n div 2) - 1)"
      using pos by (cases "bitlen (n div 2)") simp_all
    also have "\<dots> \<le> 2 * (n div 2)" using ih by simp
    also have "\<dots> \<le> n" by simp
    finally show ?thesis .
  qed
qed

lemma bitlen_upper: "n < 2 ^ k \<Longrightarrow> bitlen n \<le> k"
proof (induction n arbitrary: k rule: bitlen.induct)
  case (1 n)
  show ?case
  proof (cases "n = 0")
    case True
    then show ?thesis by (simp add: bitlen.simps)
  next
    case False
    then obtain k' where k: "k = Suc k'" using 1(2) by (cases k) auto
    have "n div 2 < 2 ^ k'" using 1(2) k by auto
    then have "bitlen (n div 2) \<le> k'" using 1(1) False by simp
    then show ?thesis using False k by (subst bitlen.simps) simp
  qed
qed

lemma bitlen_one: "bitlen (Suc 0) = Suc 0"
  by (simp add: bitlen.simps)

lemma ilog2_of_nat:
  assumes "0 < n"
  shows "ilog2 (of_nat n) = int (bitlen n) - 1"
proof -
  have q: "quotient_of (of_nat n) = (int n, 1)"
    using quotient_of_int [of "int n"] by simp
  have pos: "0 < bitlen n" using assms by (rule bitlen_pos)
  have "(2::rat) powi (int (bitlen n) - 1) = 2 ^ (bitlen n - 1)"
    using pos by (simp add: power_int_def nat_diff_distrib')
  also have "\<dots> = of_nat (2 ^ (bitlen n - 1))" by simp
  also have "\<dots> \<le> of_nat n" using bitlen_lower [OF assms] by (simp only: of_nat_le_iff)
  finally have "(2::rat) powi (int (bitlen n) - 1) \<le> of_nat n" .
  then show ?thesis by (simp add: ilog2_def q bitlen_one)
qed

lemma round_half_even_of_int: "round_half_even (of_int m) = m"
  by (simp add: round_half_even_def)

lemma b64_round_of_nat:
  assumes "n < 2 ^ 53"
  shows "b64_round (of_nat n) = Finite (of_nat n)"
proof (cases "n = 0")
  case True
  then show ?thesis by (simp add: b64_round_def)
next
  case False
  then have n: "0 < n" by simp
  define e where "e = bitlen n - 1"
  have pos: "0 < bitlen n" using n by (rule bitlen_pos)
  have le: "bitlen n \<le> 53" using assms by (rule bitlen_upper)
  have il: "ilog2 (of_nat n) = int e" using ilog2_of_nat [OF n] pos by (simp add: e_def)
  have e52: "e \<le> 52" using le pos by (simp add: e_def)
  have mx: "max (int e - 52) (- 1074) = - int (52 - e)" using e52 by simp
  have q: "(2::rat) powi (- int (52 - e)) = 1 / 2 ^ (52 - e)"
    by (simp add: power_int_minus field_simps)
  have dv: "(of_nat n :: rat) / (1 / 2 ^ (52 - e)) = of_int (int (n * 2 ^ (52 - e)))"
    by simp
  have r: "of_int (round_half_even ((of_nat n :: rat) / (1 / 2 ^ (52 - e)))) * (1 / 2 ^ (52 - e))
             = (of_nat n :: rat)"
    by (simp only: dv round_half_even_of_int) simp
  have nz: "(of_nat n :: rat) \<noteq> 0" "\<bar>of_nat n :: rat\<bar> = of_nat n" "(0::rat) < of_nat n"
    using n by simp_all
  show ?thesis
    unfolding b64_round_def Let_def nz(2) il mx q r
    using nz e52 by (simp add: il)
qed

lemma b64_round_uminus:
  assumes "b64_round x = Finite y"
  shows "b64_round (- x) = Finite (- y)"
proof (cases "x = 0")
  case True
  then show ?thesis using assms by (simp add: b64_round_def)
next
  case False
  define r :: rat where
    "r = of_int (round_half_even (\<bar>x\<bar> / 2 powi (max (ilog2 \<bar>x\<bar> - 52) (- 1074))))
           * 2 powi (max (ilog2 \<bar>x\<bar> - 52) (- 1074))"
  have a: "b64_round x = (if 1024 \<le> ilog2 r then (if 0 < x then PosInf else NegInf)
                          else Finite (if 0 < x then r else - r))"
    using False by (simp add: b64_round_def Let_def r_def)
  have b: "b64_round (- x) = (if 1024 \<le> ilog2 r then (if 0 < - x then PosInf else NegInf)
                          else Finite (if 0 < - x then r else - r))"
    using False by (simp add: b64_round_def Let_def r_def)
  from a assms have c: "\<not> 1024 \<le> ilog2 r" "y = (if 0 < x then r else - r)"
    by (auto split: if_splits)
  show ?thesis using False by (simp add: b c)
qed

lemma b64_round_of_int:
  assumes "\<bar>i\<bar> < 2 ^ 53"
  shows "b64_round (of_int i) = Finite (of_int i)"
proof (cases "0 \<le> i")
  case True
  then have "nat i < 2 ^ 53" using assms by (simp add: nat_less_iff)
  from b64_round_of_nat [OF this] True show ?thesis by simp
next
  case False
  then have "nat (- i) < 2 ^ 53" using assms by (simp add: nat_less_iff)
  from b64_round_uminus [OF b64_round_of_nat [OF this]] False show ?thesis by simp
qed

lemma int_to_float_exact: "\<bar>i\<bar> < 2 ^ 53 \<Longrightarrow> int_to_float i = Inr (Finite (of_int i))"
  by (simp add: int_to_float_def b64_round_of_int)

lemma fadd_int_exact:
  "\<bar>i + j\<bar> < 2 ^ 53 \<Longrightarrow> fadd (Finite (of_int i)) (Finite (of_int j)) = Finite (of_int (i + j))"
  using b64_round_of_int [of "i + j"] by simp

subsection \<open>Strings\<close>

text \<open>
  A Python string is a list of characters; the characters of the model are the code
  points below 256. \<open>replace\<close> is \<open>str.replace(old, new)\<close>: the occurrences of \<open>old\<close>
  are found from the left and do not overlap.
\<close>

function replace :: "string \<Rightarrow> string \<Rightarrow> string \<Rightarrow> string" where
  "replace old new s =
     (if old = [] then new @ concat (map (\<lambda>c. c # new) s)
      else if s = [] then []
      else if prefix old s then new @ replace old new (drop (length old) s)
      else hd s # replace old new (tl s))"
  by pat_completeness auto
termination
  by (relation "measure (\<lambda>(old, new, s). length s)") auto

declare replace.simps [simp del]

definition isspace :: "char \<Rightarrow> bool" where
  "isspace c = (let n = (of_char c :: nat)
     in (9 \<le> n \<and> n \<le> 13) \<or> (28 \<le> n \<and> n \<le> 32) \<or> n = 133 \<or> n = 160)"

text \<open>\<open>str.split()\<close> with no argument: the maximal runs of characters that are not
  whitespace.\<close>

fun split_ws :: "string \<Rightarrow> string \<Rightarrow> string list" where
  "split_ws cur [] = (if cur = [] then [] else [rev cur])"
| "split_ws cur (c # cs) =
     (if isspace c then (if cur = [] then split_ws [] cs else rev cur # split_ws [] cs)
      else split_ws (c # cur) cs)"

definition strip :: "string \<Rightarrow> string" where
  "strip s = rev (dropWhile isspace (rev (dropWhile isspace s)))"

definition isdigit :: "char \<Rightarrow> bool" where
  "isdigit c = (48 \<le> (of_char c :: nat) \<and> (of_char c :: nat) \<le> 57)"

definition isxdigit :: "char \<Rightarrow> bool" where
  "isxdigit c = (let n = (of_char c :: nat)
     in (48 \<le> n \<and> n \<le> 57) \<or> (65 \<le> n \<and> n \<le> 70) \<or> (97 \<le> n \<and> n \<le> 102))"

definition lower :: "char \<Rightarrow> char" where
  "lower c = (let n = (of_char c :: nat) in if 65 \<le> n \<and> n \<le> 90 then char_of (n + 32) else c)"

text \<open>
  A run of digits in a numeric literal: digits, with single underscores between two
  digits (Python 3.6 and later). The result is the digits read and the rest of the text.
\<close>

fun digits_us :: "(char \<Rightarrow> bool) \<Rightarrow> string \<Rightarrow> string \<times> string" where
  "digits_us P [] = ([], [])"
| "digits_us P (c # cs) =
     (if P c then
        (case cs of
           u # d # r \<Rightarrow>
             if u = CHR ''_'' \<and> P d
             then (let (ds, r') = digits_us P (d # r) in (c # ds, r'))
             else (let (ds, r') = digits_us P cs in (c # ds, r'))
         | _ \<Rightarrow> (let (ds, r') = digits_us P cs in (c # ds, r')))
      else ([], c # cs))"

definition split_sign :: "string \<Rightarrow> bool \<times> string" where
  "split_sign s = (case s of
       [] \<Rightarrow> (False, [])
     | c # r \<Rightarrow> if c = CHR ''-'' then (True, r) else if c = CHR ''+'' then (False, r) else (False, s))"

definition digit_val :: "char \<Rightarrow> nat" where
  "digit_val c = (let n = (of_char c :: nat)
     in if n \<le> 57 then n - 48 else if n \<le> 70 then n - 55 else n - 87)"

definition nat_of_digits :: "nat \<Rightarrow> string \<Rightarrow> nat" where
  "nat_of_digits b ds = foldl (\<lambda>a c. b * a + digit_val c) 0 ds"

definition exponent_part :: "string \<Rightarrow> int option" where
  "exponent_part s = (case s of
       [] \<Rightarrow> Some 0
     | c # r \<Rightarrow>
         if c = CHR ''e'' \<or> c = CHR ''E'' then
           (let (neg, r') = split_sign r; (ds, rest) = digits_us isdigit r'
            in if ds = [] \<or> rest \<noteq> [] then None
               else Some (if neg then - int (nat_of_digits 10 ds) else int (nat_of_digits 10 ds)))
         else None)"

definition decimal_value :: "string \<Rightarrow> rat option" where
  "decimal_value s =
     (let (ip, r1) = digits_us isdigit s;
          (fp, r2) = (case r1 of
                        [] \<Rightarrow> ([], [])
                      | c # r \<Rightarrow> if c = CHR ''.'' then digits_us isdigit r else ([], r1))
      in if ip = [] \<and> fp = [] then None
         else (case exponent_part r2 of
                 None \<Rightarrow> None
               | Some e \<Rightarrow>
                   Some (of_nat (nat_of_digits 10 (ip @ fp)) * 10 powi (e - int (length fp)))))"

text \<open>
  The value a float literal denotes, before rounding: an optional sign, then
  \<open>inf\<close>, \<open>infinity\<close> or \<open>nan\<close> in any case, or a decimal number with an optional
  fraction and exponent.
\<close>

definition literal_value :: "string \<Rightarrow> pyfloat option" where
  "literal_value t =
     (let (neg, r) = split_sign t; l = map lower r
      in if l = ''inf'' \<or> l = ''infinity'' then Some (if neg then NegInf else PosInf)
         else if l = ''nan'' then Some NaN
         else map_option (\<lambda>v. Finite (if neg then - v else v)) (decimal_value r))"

fun fround :: "pyfloat \<Rightarrow> pyfloat" where
  "fround (Finite x) = b64_round x"
| "fround y = y"

text \<open>\<open>float(s)\<close> on a string; \<open>None\<close> is ValueError.\<close>

definition float_of_str :: "string \<Rightarrow> pyfloat option" where
  "float_of_str s = map_option fround (literal_value (strip s))"

text \<open>\<open>int(s)\<close> on a string, base 10; \<open>None\<close> is ValueError.\<close>

definition int_of_str :: "string \<Rightarrow> int option" where
  "int_of_str s =
     (let (neg, r) = split_sign (strip s); (ds, rest) = digits_us isdigit r
      in if ds = [] \<or> rest \<noteq> [] then None
         else Some (if neg then - int (nat_of_digits 10 ds) else int (nat_of_digits 10 ds)))"

text \<open>\<open>int(s, 16)\<close>: an optional sign, an optional prefix \<open>0x\<close> (which one underscore
  may follow), then hexadecimal digits.\<close>

definition int_of_hex :: "string \<Rightarrow> int option" where
  "int_of_hex s =
     (let (neg, r) = split_sign (strip s);
          r1 = (case r of
                  z # x # t \<Rightarrow>
                    if z = CHR ''0'' \<and> (x = CHR ''x'' \<or> x = CHR ''X'')
                    then (case t of u # t' \<Rightarrow> if u = CHR ''_'' then t' else t | [] \<Rightarrow> t)
                    else r
                | _ \<Rightarrow> r);
          (ds, rest) = digits_us isxdigit r1
      in if ds = [] \<or> rest \<noteq> [] then None
         else Some (if neg then - int (nat_of_digits 16 ds) else int (nat_of_digits 16 ds)))"

subsection \<open>Dynamically typed values\<close>

text \<open>
  The values a YAML document or a property list holds. A dictionary lists its items; the
  script looks dictionaries up with string keys only.
\<close>

datatype pyval =
    PNone | PBool bool | PInt int | PFloat pyfloat | PStr string
  | PList "pyval list" | PDict "(pyval \<times> pyval) list"

definition ebind :: "error + 'a \<Rightarrow> ('a \<Rightarrow> error + 'b) \<Rightarrow> error + 'b" where
  "ebind m f = (case m of Inl e \<Rightarrow> Inl e | Inr x \<Rightarrow> f x)"

text \<open>\<open>d[k]\<close> for a string \<open>k\<close>: KeyError on a dictionary without the key, TypeError on
  anything that is not a dictionary.\<close>

definition getitem :: "pyval \<Rightarrow> string \<Rightarrow> error + pyval" where
  "getitem d k = (case d of
       PDict kvs \<Rightarrow> (case map_of kvs (PStr k) of None \<Rightarrow> Inl KeyError | Some v \<Rightarrow> Inr v)
     | _ \<Rightarrow> Inl TypeError)"

fun is_substr :: "string \<Rightarrow> string \<Rightarrow> bool" where
  "is_substr k [] = (k = [])"
| "is_substr k (c # cs) = (prefix k (c # cs) \<or> is_substr k cs)"

text \<open>\<open>k in d\<close> for a string \<open>k\<close>: a key of a dictionary, an element of a list, a
  substring of a string; TypeError on a value that is not a container.\<close>

definition contains :: "string \<Rightarrow> pyval \<Rightarrow> error + bool" where
  "contains k d = (case d of
       PDict kvs \<Rightarrow> Inr (map_of kvs (PStr k) \<noteq> None)
     | PList xs \<Rightarrow> Inr (PStr k \<in> set xs)
     | PStr s \<Rightarrow> Inr (is_substr k s)
     | _ \<Rightarrow> Inl TypeError)"

text \<open>\<open>int(v)\<close>.\<close>

definition py_int :: "pyval \<Rightarrow> error + int" where
  "py_int v = (case v of
       PInt i \<Rightarrow> Inr i
     | PBool b \<Rightarrow> Inr (if b then 1 else 0)
     | PFloat f \<Rightarrow> (case f of
                     Finite r \<Rightarrow> Inr (if 0 \<le> r then \<lfloor>r\<rfloor> else \<lceil>r\<rceil>)
                   | NaN \<Rightarrow> Inl ValueError
                   | _ \<Rightarrow> Inl OverflowError)
     | PStr s \<Rightarrow> (case int_of_str s of None \<Rightarrow> Inl ValueError | Some i \<Rightarrow> Inr i)
     | _ \<Rightarrow> Inl TypeError)"

text \<open>\<open>xs[i]\<close> for an index that is not negative.\<close>

definition index :: "'a list \<Rightarrow> nat \<Rightarrow> error + 'a" where
  "index xs i = (if i < length xs then Inr (xs ! i) else Inl IndexError)"

definition getattr :: "(string \<rightharpoonup> pyval) \<Rightarrow> string \<Rightarrow> error + pyval" where
  "getattr obj k = (case obj k of None \<Rightarrow> Inl AttributeError | Some v \<Rightarrow> Inr v)"

text \<open>A value in a place where the script needs a string (an operand of \<open>+\<close> with a
  string, a path): anything else is a TypeError.\<close>

definition str_of :: "pyval \<Rightarrow> error + string" where
  "str_of v = (case v of PStr s \<Rightarrow> Inr s | _ \<Rightarrow> Inl TypeError)"

subsection \<open>Paths\<close>

text \<open>\<open>os.path.basename\<close>, \<open>os.path.splitext\<close> and \<open>os.path.join\<close> of posixpath.\<close>

definition basename :: "string \<Rightarrow> string" where
  "basename p = rev (takeWhile (\<lambda>c. c \<noteq> CHR ''/'') (rev p))"

definition splitext :: "string \<Rightarrow> string \<times> string" where
  "splitext p =
     (let b = basename p;
          stem = dropWhile (\<lambda>c. c = CHR ''.'') b
      in if CHR ''.'' \<in> set stem
         then (let ext = rev (takeWhile (\<lambda>c. c \<noteq> CHR ''.'') (rev b))
               in (take (length p - length ext - 1) p, CHR ''.'' # ext))
         else (p, []))"

definition path_join :: "string \<Rightarrow> string \<Rightarrow> string" where
  "path_join a b = (if a = [] then b else if last a = CHR ''/'' then a @ b else a @ ''/'' @ b)"

section \<open>The files and the libraries\<close>

text \<open>
  The file system is a map from paths to contents. A file is text, or a property list
  with a dictionary at its root (as every property list of a UFO is), held in parsed
  form; a property list is not readable as text, nor a text as a property list. A write
  always succeeds. What the script does to the outside is also recorded, in order, as a
  list of events: the lines it prints and the files it writes.
\<close>

datatype fdata = Text string | Plist "string \<rightharpoonup> pyval"

type_synonym fs = "string \<rightharpoonup> fdata"

datatype event =
    PrintSkip string
  | PrintConvert pyval string string
  | PrintAdd pyval string string
  | WriteText string string
  | WritePlist string "string \<rightharpoonup> pyval"

record options =
  infile :: string
  outfile :: "string option"
  config :: string

text \<open>The glyph object \<open>svg2glif\<close> hands to the serializer.\<close>

record glyph =
  width :: pyval
  height :: pyval
  unicodes :: "int list option"

text \<open>
  The library functions the script calls are parameters of the model: the parsers of
  PyYAML and ElementTree (\<open>None\<close> for a document that is not well-formed; of the XML
  tree the script reads the root's attributes only), the constructors of ufoLib's
  reader and writer (the writer's may change files), \<open>readInfo\<close> (the attributes it
  sets on the info object), the validator ufoLib applies to the font lib, fontTools'
  \<open>SVGPath.fromstring\<close> and ufoLib's \<open>writeGlyphToString\<close>.
\<close>

record 'o extern =
  yaml_load :: "string \<Rightarrow> pyval option"
  etree_parse :: "string \<Rightarrow> (string \<rightharpoonup> string) option"
  UFOReader_init :: "string \<Rightarrow> fs \<Rightarrow> error option"
  UFOWriter_init :: "string \<Rightarrow> fs \<Rightarrow> error + fs"
  readInfo :: "string \<Rightarrow> fs \<Rightarrow> error + (string \<rightharpoonup> pyval)"
  fontLibValidator :: "(string \<rightharpoonup> pyval) \<Rightarrow> bool"
  SVGPath_fromstring :: "string \<Rightarrow> pyfloat list \<Rightarrow> error + 'o"
  writeGlyphToString :: "pyval \<Rightarrow> glyph \<Rightarrow> 'o \<Rightarrow> pyval \<Rightarrow> error + string"

definition read_text :: "fs \<Rightarrow> string \<Rightarrow> error + string" where
  "read_text fs p = (case fs p of Some (Text s) \<Rightarrow> Inr s | _ \<Rightarrow> Inl IOError)"

definition contentsPlistPath :: "string \<Rightarrow> string" where
  "contentsPlistPath ufo_font_path = ufo_font_path @ ''/glyphs/contents.plist''"

definition libPath :: "string \<Rightarrow> string" where
  "libPath ufo_font_path = path_join ufo_font_path ''lib.plist''"

text \<open>Lines 136 to 140: whatever goes wrong reading the registry is a UFOLibError.\<close>

definition readContents :: "fs \<Rightarrow> string \<Rightarrow> error + (string \<rightharpoonup> pyval)" where
  "readContents fs p = (case fs p of Some (Plist d) \<Rightarrow> Inr d | _ \<Rightarrow> Inl UFOLibError)"

text \<open>\<open>reader.readLib()\<close>: the dictionary of lib.plist, empty when the file is missing.\<close>

definition readLib :: "'o extern \<Rightarrow> fs \<Rightarrow> string \<Rightarrow> error + (string \<rightharpoonup> pyval)" where
  "readLib ext fs ufo_font_path = (case fs (libPath ufo_font_path) of
       None \<Rightarrow> Inr Map.empty
     | Some (Text _) \<Rightarrow> Inl UFOLibError
     | Some (Plist d) \<Rightarrow> if fontLibValidator ext d then Inr d else Inl UFOLibError)"

section \<open>The script\<close>

subsection \<open>The helpers: lines 26 to 81\<close>

definition parseSvg :: "'o extern \<Rightarrow> fs \<Rightarrow> string \<Rightarrow> error + (string \<rightharpoonup> string)" where
  "parseSvg ext fs path = (case read_text fs path of
       Inl e \<Rightarrow> Inl e
     | Inr s \<Rightarrow> (case etree_parse ext s of None \<Rightarrow> Inl ParseError | Some tree \<Rightarrow> Inr tree))"

definition getConfig :: "'o extern \<Rightarrow> fs \<Rightarrow> string \<Rightarrow> error + pyval" where
  "getConfig ext fs configFile = (case read_text fs configFile of
       Inl e \<Rightarrow> Inl e
     | Inr s \<Rightarrow> (case yaml_load ext s of None \<Rightarrow> Inl YAMLError | Some cfg \<Rightarrow> Inr cfg))"

text \<open>\<open>split\<close> of line 39, \<open>arg.replace(",", " ").split()\<close>.\<close>

definition split_str :: "string \<Rightarrow> string list" where
  "split_str arg = split_ws [] (replace '','' '' '' arg)"

text \<open>\<open>svg2glif\<close> makes the glyph object, parses the outline with the transform and
  serializes both. \<open>main\<close> passes every argument, so the defaults of the signature play
  no part.\<close>

definition svg2glif ::
  "'o extern \<Rightarrow> string \<Rightarrow> pyval \<Rightarrow> pyval \<Rightarrow> pyval \<Rightarrow> int list option \<Rightarrow> pyfloat list
     \<Rightarrow> pyval \<Rightarrow> error + string" where
  "svg2glif ext svg name wd ht us transform version =
     (let g = \<lparr>width = wd, height = ht, unicodes = us\<rparr>
      in ebind (SVGPath_fromstring ext svg transform) (\<lambda>outline.
           writeGlyphToString ext name g outline version))"

text \<open>\<open>arg.replace\<close> exists on a string only; a token that is not a float is a
  ValueError, which the function turns into an ArgumentTypeError.\<close>

definition transform_list :: "pyval \<Rightarrow> error + pyfloat list" where
  "transform_list arg = (case arg of
       PStr s \<Rightarrow> (case those (map float_of_str (split_str s)) of
                    None \<Rightarrow> Inl ArgumentTypeError
                  | Some xs \<Rightarrow> Inr xs)
     | _ \<Rightarrow> Inl AttributeError)"

definition unicode_hex_list :: "pyval \<Rightarrow> error + int list" where
  "unicode_hex_list arg = (case arg of
       PStr s \<Rightarrow> (case those (map int_of_hex (split_str s)) of
                    None \<Rightarrow> Inl ArgumentTypeError
                  | Some xs \<Rightarrow> Inr xs)
     | _ \<Rightarrow> Inl AttributeError)"

subsection \<open>\<open>main\<close>, lines 102 to 121: the inputs\<close>

text \<open>Lines 108 and 109: \<open>float(svgObj.attrib[k].replace("px", " "))\<close>.\<close>

definition svg_dimension :: "(string \<rightharpoonup> string) \<Rightarrow> string \<Rightarrow> error + pyfloat" where
  "svg_dimension attrib k = (case attrib k of
       None \<Rightarrow> Inl KeyError
     | Some v \<Rightarrow> (case float_of_str (replace ''px'' '' '' v) of
                   None \<Rightarrow> Inl ValueError
                 | Some x \<Rightarrow> Inr x))"

definition font_setting :: "pyval \<Rightarrow> string \<Rightarrow> error + pyval" where
  "font_setting cfg k = ebind (getitem cfg ''font'') (\<lambda>f. getitem f k)"

text \<open>What \<open>main\<close> holds when line 121 is done.\<close>

record ctx =
  c_config :: pyval
  c_width :: pyfloat
  c_height :: pyfloat
  c_name :: string
  c_ufo :: string
  c_info :: "string \<rightharpoonup> pyval"
  c_familyName :: pyval
  c_svg :: string

text \<open>Lines 102 to 111, which read only. The options are taken as \<open>parse_args\<close> returns
  them. A storage path that is not a string makes the reader's constructor fail.\<close>

definition read_inputs ::
  "'o extern \<Rightarrow> options \<Rightarrow> fs \<Rightarrow> error + (pyval \<times> pyfloat \<times> pyfloat \<times> string \<times> string)" where
  "read_inputs ext opts fs =
     ebind (getConfig ext fs (config opts)) (\<lambda>cfg.
     ebind (parseSvg ext fs (infile opts)) (\<lambda>svgObj.
     ebind (svg_dimension (svgObj) ''width'') (\<lambda>wd.
     ebind (svg_dimension (svgObj) ''height'') (\<lambda>ht.
     ebind (font_setting cfg ''ufo'') (\<lambda>u.
     ebind (str_of u) (\<lambda>ufo.
       Inr (cfg, wd, ht, fst (splitext (basename (infile opts))), ufo)))))))"

text \<open>Lines 113 to 121: the reader and the writer are made, the font info is read and
  the outline is read as text. The files are from here on as the writer's constructor
  leaves them.\<close>

definition load :: "'o extern \<Rightarrow> options \<Rightarrow> fs \<Rightarrow> (error + ctx) \<times> fs" where
  "load ext opts fs =
     (case read_inputs ext opts fs of
        Inl e \<Rightarrow> (Inl e, fs)
      | Inr (cfg, wd, ht, name, ufo) \<Rightarrow>
          (case UFOReader_init ext ufo fs of
             Some e \<Rightarrow> (Inl e, fs)
           | None \<Rightarrow>
               (case UFOWriter_init ext ufo fs of
                  Inl e \<Rightarrow> (Inl e, fs)
                | Inr fs1 \<Rightarrow>
                    (ebind (readInfo ext ufo fs1) (\<lambda>info.
                     ebind (getattr info ''familyName'') (\<lambda>fam.
                     ebind (read_text fs1 (infile opts)) (\<lambda>svg.
                       Inr \<lparr>c_config = cfg, c_width = wd, c_height = ht, c_name = name,
                            c_ufo = ufo, c_info = info, c_familyName = fam, c_svg = svg\<rparr>))),
                     fs1))))"

subsection \<open>\<open>main\<close>, lines 123 to 162: the conversion\<close>

text \<open>Line 125. Of its exceptions \<open>main\<close> catches the KeyError only.\<close>

definition svg_lookup :: "pyval \<Rightarrow> string \<Rightarrow> error + pyval" where
  "svg_lookup cfg name = ebind (getitem cfg ''svgs'') (\<lambda>svgs. getitem svgs name)"

text \<open>Lines 129 to 132.\<close>

definition unicodeVal :: "pyval \<Rightarrow> error + int list option" where
  "unicodeVal svg_config =
     ebind (contains ''unicode'' svg_config) (\<lambda>has.
       if has
       then ebind (getitem svg_config ''unicode'') (\<lambda>u.
            ebind (unicode_hex_list u) (\<lambda>xs. Inr (Some xs)))
       else Inr None)"

text \<open>Line 133: \<open>width + int(svg_config['left']) + int(svg_config['right'])\<close>.\<close>

definition glyphWidth :: "pyfloat \<Rightarrow> pyval \<Rightarrow> error + pyfloat" where
  "glyphWidth wd svg_config =
     ebind (getitem svg_config ''left'') (\<lambda>lv.
     ebind (py_int lv) (\<lambda>l.
     ebind (float_add_int wd l) (\<lambda>w1.
     ebind (getitem svg_config ''right'') (\<lambda>rv.
     ebind (py_int rv) (\<lambda>r.
       float_add_int w1 r)))))"

text \<open>Line 143: \<open>glyph_name in contentsPlist\<close>; a list or a dictionary cannot be hashed.\<close>

definition existing_glyph :: "pyval \<Rightarrow> (string \<rightharpoonup> pyval) \<Rightarrow> error + bool" where
  "existing_glyph glyph_name contentsPlist = (case glyph_name of
       PStr g \<Rightarrow> Inr (contentsPlist g \<noteq> None)
     | PList _ \<Rightarrow> Inl TypeError
     | PDict _ \<Rightarrow> Inl TypeError
     | _ \<Rightarrow> Inr False)"

text \<open>Lines 150 to 152.\<close>

definition svg_base :: "pyval \<Rightarrow> error + int" where
  "svg_base svg_config =
     ebind (contains ''base'' svg_config) (\<lambda>has.
       if has then ebind (getitem svg_config ''base'') py_int else Inr 0)"

text \<open>Lines 149 to 154. An augmented assignment reads its target first, so a list that
  is too short is an IndexError before the right-hand side is evaluated.\<close>

definition placement :: "pyval \<Rightarrow> pyval \<Rightarrow> pyfloat \<Rightarrow> error + pyfloat list" where
  "placement cfg svg_config ht =
     ebind (font_setting cfg ''transform'') (\<lambda>tv.
     ebind (transform_list tv) (\<lambda>transform.
     ebind (svg_base svg_config) (\<lambda>base.
     ebind (index transform 4) (\<lambda>t4.
     ebind (getitem svg_config ''left'') (\<lambda>lv.
     ebind (py_int lv) (\<lambda>l.
     ebind (float_add_int t4 l) (\<lambda>x.
     ebind (index (transform[4 := x]) 5) (\<lambda>t5.
     ebind (float_add_int ht base) (\<lambda>hb.
       Inr (transform[4 := x, 5 := fadd t5 hb]))))))))))"

text \<open>What lines 129 to 162 leave for lines 164 to 182: the glyph name, whether it is
  registered, the registry as read, and the text \<open>svg2glif\<close> returned.\<close>

record request =
  r_glyph_name :: pyval
  r_existing :: bool
  r_contents :: "string \<rightharpoonup> pyval"
  r_glif :: string

definition convert :: "'o extern \<Rightarrow> ctx \<Rightarrow> pyval \<Rightarrow> fs \<Rightarrow> error + request" where
  "convert ext c svg_config fs =
     ebind (unicodeVal svg_config) (\<lambda>us.
     ebind (glyphWidth (c_width c) svg_config) (\<lambda>gw.
     ebind (readContents fs (contentsPlistPath (c_ufo c))) (\<lambda>contentsPlist.
     ebind (getitem svg_config ''glyph_name'') (\<lambda>glyph_name.
     ebind (existing_glyph glyph_name contentsPlist) (\<lambda>ex.
     ebind (placement (c_config c) svg_config (c_height c)) (\<lambda>transform.
     ebind (getattr (c_info c) ''unitsPerEm'') (\<lambda>upm.
     ebind (font_setting (c_config c) ''version'') (\<lambda>version.
     ebind (svg2glif ext (c_svg c) glyph_name (PFloat gw) upm us transform version) (\<lambda>glif.
       Inr \<lparr>r_glyph_name = glyph_name, r_existing = ex, r_contents = contentsPlist,
            r_glif = glif\<rparr>)))))))))"

subsection \<open>\<open>main\<close>, lines 164 to 182: the output and the registration\<close>

definition output_path :: "options \<Rightarrow> string \<Rightarrow> pyval \<Rightarrow> error + string" where
  "output_path opts ufo glyph_name = (case outfile opts of
       None \<Rightarrow> ebind (str_of glyph_name) (\<lambda>g. Inr (ufo @ ''/glyphs/'' @ g @ ''.glif''))
     | Some p \<Rightarrow> Inr p)"

text \<open>Lines 176 to 182. \<open>writePlistAtomically\<close> and \<open>writeLib\<close> put a property list in
  place of the file; \<open>writeLib\<close> validates the lib first.\<close>

definition register ::
  "'o extern \<Rightarrow> ctx \<Rightarrow> request \<Rightarrow> fs \<Rightarrow> event list \<Rightarrow> (error + unit) \<times> fs \<times> event list" where
  "register ext c rq fs ev =
     (case str_of (r_glyph_name rq) of
        Inl e \<Rightarrow> (Inl e, fs, ev)
      | Inr g \<Rightarrow>
          (let contents' = (r_contents rq)(g \<mapsto> PStr (g @ ''.glif''));
               cp = contentsPlistPath (c_ufo c);
               fs2 = fs(cp \<mapsto> Plist contents');
               ev2 = ev @ [WritePlist cp contents', PrintAdd (c_familyName c) g (g @ ''.glif'')]
           in case readLib ext fs2 (c_ufo c) of
                Inl e \<Rightarrow> (Inl e, fs2, ev2)
              | Inr lib_obj \<Rightarrow>
                  (case lib_obj ''public.glyphOrder'' of
                     None \<Rightarrow> (Inl KeyError, fs2, ev2)
                   | Some (PList order) \<Rightarrow>
                       (let lib' = lib_obj(''public.glyphOrder'' \<mapsto> PList (order @ [PStr g]))
                        in if fontLibValidator ext lib'
                           then (Inr (), fs2(libPath (c_ufo c) \<mapsto> Plist lib'),
                                 ev2 @ [WritePlist (libPath (c_ufo c)) lib'])
                           else (Inl UFOLibError, fs2, ev2))
                   | Some _ \<Rightarrow> (Inl AttributeError, fs2, ev2))))"

definition main :: "'o extern \<Rightarrow> options \<Rightarrow> fs \<Rightarrow> (error + unit) \<times> fs \<times> event list" where
  "main ext opts fs =
     (case load ext opts fs of
        (Inl e, fs1) \<Rightarrow> (Inl e, fs1, [])
      | (Inr c, fs1) \<Rightarrow>
          (case svg_lookup (c_config c) (c_name c) of
             Inl e \<Rightarrow>
               if e = KeyError then (Inr (), fs1, [PrintSkip (c_name c)]) else (Inl e, fs1, [])
           | Inr svg_config \<Rightarrow>
               (case convert ext c svg_config fs1 of
                  Inl e \<Rightarrow> (Inl e, fs1, [])
                | Inr rq \<Rightarrow>
                    (case output_path opts (c_ufo c) (r_glyph_name rq) of
                       Inl e \<Rightarrow> (Inl e, fs1, [])
                     | Inr output_file \<Rightarrow>
                         (let fs2 = fs1(output_file \<mapsto> Text (r_glif rq));
                              ev = [WriteText output_file (r_glif rq),
                                    PrintConvert (c_familyName c) (c_name c) output_file]
                          in if r_existing rq then (Inr (), fs2, ev)
                             else register ext c rq fs2 ev)))))"

text \<open>Line 186, \<open>sys.exit(main())\<close>: \<open>main\<close> returns \<open>None\<close>, which is exit status 0;
  an exception that leaves \<open>main\<close> ends the interpreter with status 1.\<close>

definition exit_status :: "error + unit \<Rightarrow> int" where
  "exit_status r = (case r of Inr _ \<Rightarrow> 0 | Inl _ \<Rightarrow> 1)"

section \<open>Properties\<close>

subsection \<open>Auxiliary facts\<close>

lemma ebind_simps [simp]:
  "ebind (Inl e) f = Inl e"
  "ebind (Inr x) f = f x"
  by (simp_all add: ebind_def)

lemma ebind_eq_Inr: "ebind m f = Inr y \<longleftrightarrow> (\<exists>x. m = Inr x \<and> f x = Inr y)"
  by (cases m) simp_all

lemma b64_round_numeral:
  "(numeral k :: int) < 9007199254740992 \<Longrightarrow> b64_round (numeral k) = Finite (numeral k)"
  using b64_round_of_int [of "numeral k"] by simp

lemma b64_round_zero: "b64_round 0 = Finite 0"
  by (simp add: b64_round_def)

lemma b64_round_one: "b64_round 1 = Finite 1"
  using b64_round_of_int [of 1] by simp

lemmas b64_small = b64_round_numeral b64_round_zero b64_round_one

lemma int_to_float_numeral:
  "(numeral k :: int) < 9007199254740992 \<Longrightarrow> int_to_float (numeral k) = Inr (Finite (numeral k))"
  by (simp add: int_to_float_def b64_round_numeral)

lemma int_to_float_zero: "int_to_float 0 = Inr (Finite 0)"
  by (simp add: int_to_float_def b64_round_zero)

text \<open>A configuration entry for the examples: glyph \<open>uni0041\<close> with the given left and
  right bearings and base offset 0.\<close>

definition demo_entry :: "int \<Rightarrow> int \<Rightarrow> pyval" where
  "demo_entry l r = PDict [(PStr ''glyph_name'', PStr ''uni0041''), (PStr ''left'', PInt l),
     (PStr ''right'', PInt r), (PStr ''base'', PInt 0)]"

subsection \<open>The advance width\<close>

text \<open>
  Claim C2. For a configuration entry whose \<open>left\<close> and \<open>right\<close> convert to integers
  that are in the range of a float, the advance width of line 133 is the outline's
  width plus the left bearing plus the right bearing, added as floats in this order.
  The witness is the example of the specification: width 100, left 10 and right 20
  give 130.
\<close>

theorem advance_width_sum:
  assumes "getitem svg_config ''left'' = Inr lv" and "py_int lv = Inr l"
    and "int_to_float l = Inr lf"
    and "getitem svg_config ''right'' = Inr rv" and "py_int rv = Inr r"
    and "int_to_float r = Inr rf"
  shows "glyphWidth wd svg_config = Inr (fadd (fadd wd lf) rf)"
  using assms by (simp add: glyphWidth_def float_add_int_def)

theorem advance_width_sum_witness:
  "getitem (demo_entry 10 20) ''left'' = Inr (PInt 10) \<and> py_int (PInt 10) = Inr 10
   \<and> int_to_float 10 = Inr (Finite 10)
   \<and> getitem (demo_entry 10 20) ''right'' = Inr (PInt 20) \<and> py_int (PInt 20) = Inr 20
   \<and> int_to_float 20 = Inr (Finite 20)
   \<and> glyphWidth (Finite 100) (demo_entry 10 20) = Inr (Finite 130)"
proof -
  have l: "getitem (demo_entry 10 20) ''left'' = Inr (PInt 10)"
    by (simp add: getitem_def demo_entry_def)
  have r: "getitem (demo_entry 10 20) ''right'' = Inr (PInt 20)"
    by (simp add: getitem_def demo_entry_def)
  have li: "py_int (PInt 10) = Inr 10" and ri: "py_int (PInt 20) = Inr 20"
    by (simp_all add: py_int_def)
  have lf: "int_to_float 10 = Inr (Finite 10)" and rf: "int_to_float 20 = Inr (Finite 20)"
    by (simp_all add: int_to_float_numeral)
  have "fadd (fadd (Finite 100) (Finite 10)) (Finite 20) = Finite 130"
    by (simp add: b64_round_numeral)
  with advance_width_sum [OF l li lf r ri rf, of "Finite 100"] l r li ri lf rf
  show ?thesis by simp
qed

subsection \<open>The placement transform\<close>

text \<open>The configuration of the examples: the font \<open>Font.ufo\<close> with the identity as its
  base transform, and one outline, \<open>A\<close>.\<close>

definition demo_config :: "int \<Rightarrow> int \<Rightarrow> pyval" where
  "demo_config l r = PDict
     [(PStr ''font'', PDict [(PStr ''ufo'', PStr ''Font.ufo''),
                             (PStr ''transform'', PStr ''1 0 0 1 0 0''),
                             (PStr ''version'', PInt 2)]),
      (PStr ''svgs'', PDict [(PStr ''A'', demo_entry l r)])]"

lemma split_demo: "split_str ''1 0 0 1 0 0'' = [''1'', ''0'', ''0'', ''1'', ''0'', ''0'']"
  by code_simp

lemma literal_demo:
  "literal_value (strip ''1'') = Some (Finite 1)"
  "literal_value (strip ''0'') = Some (Finite 0)"
  "literal_value (strip ''100 '') = Some (Finite 100)"
  "literal_value (strip ''200 '') = Some (Finite 200)"
  "literal_value (strip ''50 '') = Some (Finite 50)"
  by code_simp+

lemma float_demo:
  "float_of_str ''1'' = Some (Finite 1)"
  "float_of_str ''0'' = Some (Finite 0)"
  "float_of_str ''100 '' = Some (Finite 100)"
  "float_of_str ''200 '' = Some (Finite 200)"
  "float_of_str ''50 '' = Some (Finite 50)"
  by (simp_all add: float_of_str_def literal_demo b64_small)

lemma transform_demo:
  "transform_list (PStr ''1 0 0 1 0 0'')
     = Inr [Finite 1, Finite 0, Finite 0, Finite 1, Finite 0, Finite 0]"
  by (simp add: transform_list_def split_demo float_demo)

text \<open>
  Claim C1. The placement transform of lines 149 to 154 is the base transform of the
  font section with its two translation components changed and nothing else: for six
  base coefficients \<open>a b c d e f\<close>, the result is \<open>a b c d\<close>, then \<open>e\<close> plus the left
  bearing, then \<open>f\<close> plus the sum of the outline's height and the base offset, where the
  base offset is 0 for an entry without the key \<open>base\<close>. The additions are float
  additions. The witness is the example of the specification, with an entry that has no
  \<open>base\<close>: base transform (1,0,0,1,0,0), left 5 and height 50 give (1,0,0,1,5,50).
\<close>

theorem placement_translation:
  assumes "font_setting cfg ''transform'' = Inr tv"
    and "transform_list tv = Inr [a, b, c, d, e, f]"
    and "svg_config = PDict kvs"
    and "(case map_of kvs (PStr ''base'') of None \<Rightarrow> Inr 0 | Some bv \<Rightarrow> py_int bv) = Inr base"
    and "int_to_float base = Inr bf"
    and "map_of kvs (PStr ''left'') = Some lv" and "py_int lv = Inr l"
    and "int_to_float l = Inr lf"
  shows "placement cfg svg_config ht = Inr [a, b, c, d, fadd e lf, fadd f (fadd ht bf)]"
proof -
  have b: "svg_base svg_config = Inr base"
    using assms(3,4) by (auto simp: svg_base_def contains_def getitem_def split: option.splits)
  have l: "getitem svg_config ''left'' = Inr lv"
    using assms(3,6) by (simp add: getitem_def)
  show ?thesis
    using assms(1,2,5,7,8) b l
    by (simp add: placement_def index_def float_add_int_def)
qed

text \<open>The items of an entry without the key \<open>base\<close>.\<close>

definition demo_nobase :: "int \<Rightarrow> int \<Rightarrow> (pyval \<times> pyval) list" where
  "demo_nobase l r = [(PStr ''glyph_name'', PStr ''uni0041''), (PStr ''left'', PInt l),
     (PStr ''right'', PInt r)]"

theorem placement_translation_witness:
  "font_setting (demo_config 5 5) ''transform'' = Inr (PStr ''1 0 0 1 0 0'')
   \<and> transform_list (PStr ''1 0 0 1 0 0'')
       = Inr [Finite 1, Finite 0, Finite 0, Finite 1, Finite 0, Finite 0]
   \<and> (case map_of (demo_nobase 5 5) (PStr ''base'') of None \<Rightarrow> Inr 0 | Some bv \<Rightarrow> py_int bv)
       = Inr 0
   \<and> int_to_float 0 = Inr (Finite 0)
   \<and> map_of (demo_nobase 5 5) (PStr ''left'') = Some (PInt 5) \<and> py_int (PInt 5) = Inr 5
   \<and> int_to_float 5 = Inr (Finite 5)
   \<and> placement (demo_config 5 5) (PDict (demo_nobase 5 5)) (Finite 50)
       = Inr [Finite 1, Finite 0, Finite 0, Finite 1, Finite 5, Finite 50]"
proof -
  have t: "font_setting (demo_config 5 5) ''transform'' = Inr (PStr ''1 0 0 1 0 0'')"
    by (simp add: font_setting_def getitem_def demo_config_def)
  have b: "(case map_of (demo_nobase 5 5) (PStr ''base'') of None \<Rightarrow> Inr 0 | Some bv \<Rightarrow> py_int bv)
             = Inr 0"
    by (simp add: demo_nobase_def)
  have l: "map_of (demo_nobase 5 5) (PStr ''left'') = Some (PInt 5)"
    by (simp add: demo_nobase_def)
  have li: "py_int (PInt 5) = Inr 5" by (simp add: py_int_def)
  have lf: "int_to_float 5 = Inr (Finite 5)" by (simp add: int_to_float_numeral)
  have ar: "fadd (Finite 0) (Finite 5) = Finite 5"
    "fadd (Finite 0) (fadd (Finite 50) (Finite 0)) = Finite 50"
    by (simp_all add: b64_small)
  from placement_translation [OF t transform_demo refl b int_to_float_zero l li lf, of "Finite 50"]
  show ?thesis using t transform_demo b int_to_float_zero l li lf ar by simp
qed

subsection \<open>What a run of \<open>main\<close> that succeeds has done\<close>

text \<open>The registry and the glyph order a font holds on disk.\<close>

definition registry :: "fs \<Rightarrow> string \<Rightarrow> (string \<rightharpoonup> pyval) option" where
  "registry fs ufo = (case fs (contentsPlistPath ufo) of Some (Plist d) \<Rightarrow> Some d | _ \<Rightarrow> None)"

definition glyphOrder :: "fs \<Rightarrow> string \<Rightarrow> pyval list option" where
  "glyphOrder fs ufo = (case fs (libPath ufo) of
       Some (Plist d) \<Rightarrow> (case d ''public.glyphOrder'' of Some (PList xs) \<Rightarrow> Some xs | _ \<Rightarrow> None)
     | _ \<Rightarrow> None)"

lemma libPath_neq_contentsPlistPath: "libPath u \<noteq> contentsPlistPath u"
proof
  assume "libPath u = contentsPlistPath u"
  then have "rev (libPath u) ! 6 = rev (contentsPlistPath u) ! 6" by simp
  moreover have "rev (contentsPlistPath u) ! 6 = CHR ''s''"
    by (simp add: contentsPlistPath_def nth_append)
  moreover have "rev (libPath u) ! 6 = CHR ''b''"
    by (simp add: libPath_def path_join_def nth_append)
  ultimately show False by simp
qed

lemma convert_InrD:
  assumes "convert ext c svg_config fs = Inr rq"
  shows "\<exists>us gw cp gn ex tf upm ver outline.
           unicodeVal svg_config = Inr us
         \<and> glyphWidth (c_width c) svg_config = Inr gw
         \<and> readContents fs (contentsPlistPath (c_ufo c)) = Inr cp
         \<and> getitem svg_config ''glyph_name'' = Inr gn
         \<and> existing_glyph gn cp = Inr ex
         \<and> placement (c_config c) svg_config (c_height c) = Inr tf
         \<and> getattr (c_info c) ''unitsPerEm'' = Inr upm
         \<and> font_setting (c_config c) ''version'' = Inr ver
         \<and> SVGPath_fromstring ext (c_svg c) tf = Inr outline
         \<and> writeGlyphToString ext gn \<lparr>width = PFloat gw, height = upm, unicodes = us\<rparr> outline ver
             = Inr (r_glif rq)
         \<and> r_glyph_name rq = gn \<and> r_existing rq = ex \<and> r_contents rq = cp"
  using assms by (auto simp: convert_def svg2glif_def Let_def ebind_eq_Inr)

lemma load_InrD:
  assumes "load ext opts fs = (Inr c, fs1)"
  shows "read_inputs ext opts fs = Inr (c_config c, c_width c, c_height c, c_name c, c_ufo c)
       \<and> UFOReader_init ext (c_ufo c) fs = None
       \<and> UFOWriter_init ext (c_ufo c) fs = Inr fs1
       \<and> readInfo ext (c_ufo c) fs1 = Inr (c_info c)
       \<and> getattr (c_info c) ''familyName'' = Inr (c_familyName c)
       \<and> read_text fs1 (infile opts) = Inr (c_svg c)"
  using assms
  by (auto simp: load_def ebind_eq_Inr split: sum.splits option.splits prod.splits)

lemma str_of_eq_Inr [simp]: "str_of v = Inr s \<longleftrightarrow> v = PStr s"
  by (cases v) (simp_all add: str_of_def)

lemma read_inputs_name:
  "read_inputs ext opts fs = Inr (cfg, wd, ht, name, ufo)
     \<Longrightarrow> name = fst (splitext (basename (infile opts)))"
  by (auto simp: read_inputs_def ebind_eq_Inr)

lemma main_skip:
  assumes "load ext opts fs = (Inr c, fs1)"
    and "svg_lookup (c_config c) (c_name c) = Inl KeyError"
  shows "main ext opts fs = (Inr (), fs1, [PrintSkip (c_name c)])"
  using assms by (simp add: main_def)

lemma register_InrD:
  assumes "register ext c rq fs ev = (Inr (), fs', ev')"
  shows "\<exists>g lib_obj order.
           r_glyph_name rq = PStr g
         \<and> readLib ext (fs(contentsPlistPath (c_ufo c) \<mapsto> Plist ((r_contents rq)(g \<mapsto> PStr (g @ ''.glif'')))))
               (c_ufo c) = Inr lib_obj
         \<and> lib_obj ''public.glyphOrder'' = Some (PList order)
         \<and> fs' = fs(contentsPlistPath (c_ufo c) \<mapsto> Plist ((r_contents rq)(g \<mapsto> PStr (g @ ''.glif''))),
                    libPath (c_ufo c) \<mapsto> Plist (lib_obj(''public.glyphOrder'' \<mapsto> PList (order @ [PStr g]))))
         \<and> ev' = ev @ [WritePlist (contentsPlistPath (c_ufo c)) ((r_contents rq)(g \<mapsto> PStr (g @ ''.glif''))),
                        PrintAdd (c_familyName c) g (g @ ''.glif''),
                        WritePlist (libPath (c_ufo c)) (lib_obj(''public.glyphOrder'' \<mapsto> PList (order @ [PStr g])))]"
  using assms
  by (auto simp: register_def Let_def split: sum.splits option.splits pyval.splits if_splits)

lemma main_InrD:
  assumes "main ext opts fs = (Inr (), fs', ev)"
    and "load ext opts fs = (Inr c, fs1)"
    and "svg_lookup (c_config c) (c_name c) = Inr svg_config"
  shows "\<exists>rq out.
           convert ext c svg_config fs1 = Inr rq
         \<and> output_path opts (c_ufo c) (r_glyph_name rq) = Inr out
         \<and> (if r_existing rq
              then fs' = fs1(out \<mapsto> Text (r_glif rq))
                 \<and> ev = [WriteText out (r_glif rq), PrintConvert (c_familyName c) (c_name c) out]
              else register ext c rq (fs1(out \<mapsto> Text (r_glif rq)))
                     [WriteText out (r_glif rq), PrintConvert (c_familyName c) (c_name c) out]
                   = (Inr (), fs', ev))"
  using assms
  by (auto simp: main_def Let_def split: sum.splits if_splits)

subsection \<open>An example font\<close>

text \<open>
  The examples run \<open>main\<close> on a font with units per em 1000, an outline of width 100
  and height 200, and the entry \<open>demo_entry 10 20\<close> for the outline \<open>A\<close>. The library
  functions of the example are stand-ins: the parsers return the configuration and the
  attributes whatever the text, the constructors and the validator accept everything
  and the writer's constructor writes nothing, the serializer returns a fixed text.
\<close>

definition demo_info :: "string \<rightharpoonup> pyval" where
  "demo_info = [''familyName'' \<mapsto> PStr ''Gayathri'', ''unitsPerEm'' \<mapsto> PInt 1000]"

definition demo_ext :: "string extern" where
  "demo_ext = \<lparr>yaml_load = (\<lambda>s. Some (demo_config 10 20)),
      etree_parse = (\<lambda>s. Some [''width'' \<mapsto> ''100px'', ''height'' \<mapsto> ''200px'']),
      UFOReader_init = (\<lambda>p fs. None),
      UFOWriter_init = (\<lambda>p fs. Inr fs),
      readInfo = (\<lambda>p fs. Inr demo_info),
      fontLibValidator = (\<lambda>d. True),
      SVGPath_fromstring = (\<lambda>svg t. Inr svg),
      writeGlyphToString = (\<lambda>n g outline v. Inr ''<glyph/>'')\<rparr>"

definition demo_fs :: "(string \<rightharpoonup> pyval) \<Rightarrow> fs" where
  "demo_fs reg = [''mapping.yaml'' \<mapsto> Text ''font: ...'',
     ''A.svg'' \<mapsto> Text ''<svg/>'', ''B.svg'' \<mapsto> Text ''<svg/>'',
     ''Font.ufo/glyphs/contents.plist'' \<mapsto> Plist reg,
     ''Font.ufo/lib.plist'' \<mapsto> Plist [''public.glyphOrder'' \<mapsto> PList [PStr ''space'']]]"

definition demo_opts :: "string \<Rightarrow> options" where
  "demo_opts f = \<lparr>infile = f, outfile = None, config = ''mapping.yaml''\<rparr>"

definition demo_ctx :: "string \<Rightarrow> ctx" where
  "demo_ctx n = \<lparr>c_config = demo_config 10 20, c_width = Finite 100, c_height = Finite 200,
     c_name = n, c_ufo = ''Font.ufo'', c_info = demo_info, c_familyName = PStr ''Gayathri'',
     c_svg = ''<svg/>''\<rparr>"

lemma replace_demo:
  "replace ''px'' '' '' ''100px'' = ''100 ''"
  "replace ''px'' '' '' ''200px'' = ''200 ''"
  by code_simp+

lemma name_demo:
  "fst (splitext (basename ''A.svg'')) = ''A''"
  "fst (splitext (basename ''B.svg'')) = ''B''"
  by code_simp+

lemma demo_read_inputs:
  "read_inputs demo_ext (demo_opts ''A.svg'') (demo_fs reg)
     = Inr (demo_config 10 20, Finite 100, Finite 200, ''A'', ''Font.ufo'')"
  "read_inputs demo_ext (demo_opts ''B.svg'') (demo_fs reg)
     = Inr (demo_config 10 20, Finite 100, Finite 200, ''B'', ''Font.ufo'')"
  by (simp_all add: read_inputs_def getConfig_def parseSvg_def read_text_def demo_ext_def
      demo_opts_def demo_fs_def svg_dimension_def replace_demo float_demo name_demo
      font_setting_def getitem_def demo_config_def str_of_def)

lemma demo_load:
  "load demo_ext (demo_opts ''A.svg'') (demo_fs reg) = (Inr (demo_ctx ''A''), demo_fs reg)"
  "load demo_ext (demo_opts ''B.svg'') (demo_fs reg) = (Inr (demo_ctx ''B''), demo_fs reg)"
  by (simp_all add: load_def demo_read_inputs)
     (simp_all add: demo_ext_def getattr_def demo_info_def read_text_def demo_fs_def demo_opts_def
        demo_ctx_def)

lemma demo_lookup:
  "svg_lookup (c_config (demo_ctx ''A'')) (c_name (demo_ctx ''A'')) = Inr (demo_entry 10 20)"
  "svg_lookup (c_config (demo_ctx ''B'')) (c_name (demo_ctx ''B'')) = Inl KeyError"
  by (simp_all add: svg_lookup_def getitem_def demo_ctx_def demo_config_def)

lemma demo_placement:
  "placement (demo_config 10 20) (demo_entry 10 20) (Finite 200)
     = Inr [Finite 1, Finite 0, Finite 0, Finite 1, Finite 10, Finite 200]"
  "placement (demo_config 10 20) (demo_entry 10 20) (Finite 50)
     = Inr [Finite 1, Finite 0, Finite 0, Finite 1, Finite 10, Finite 50]"
  by (simp_all add: placement_def font_setting_def getitem_def demo_config_def transform_demo
      svg_base_def contains_def demo_entry_def py_int_def index_def float_add_int_def
      int_to_float_numeral int_to_float_zero b64_small)

text \<open>What the conversion of the example makes, for a given registry.\<close>

definition demo_request :: "(string \<rightharpoonup> pyval) \<Rightarrow> request" where
  "demo_request reg = \<lparr>r_glyph_name = PStr ''uni0041'', r_existing = (reg ''uni0041'' \<noteq> None),
     r_contents = reg, r_glif = ''<glyph/>''\<rparr>"

lemma demo_width: "glyphWidth (Finite 100) (demo_entry 10 20) = Inr (Finite 130)"
  by (simp add: glyphWidth_def getitem_def demo_entry_def py_int_def float_add_int_def
      int_to_float_numeral b64_small)

lemma demo_convert:
  "convert demo_ext (demo_ctx n) (demo_entry 10 20) (demo_fs reg) = Inr (demo_request reg)"
proof -
  have u: "unicodeVal (demo_entry 10 20) = Inr None"
    by (simp add: unicodeVal_def contains_def demo_entry_def)
  have c: "readContents (demo_fs reg) (contentsPlistPath ''Font.ufo'') = Inr reg"
    by (simp add: readContents_def contentsPlistPath_def demo_fs_def)
  have g: "getitem (demo_entry 10 20) ''glyph_name'' = Inr (PStr ''uni0041'')"
    by (simp add: getitem_def demo_entry_def)
  have v: "font_setting (demo_config 10 20) ''version'' = Inr (PInt 2)"
    by (simp add: font_setting_def getitem_def demo_config_def)
  have i: "getattr demo_info ''unitsPerEm'' = Inr (PInt 1000)"
    by (simp add: getattr_def demo_info_def)
  show ?thesis
    by (simp add: convert_def demo_ctx_def u c g v i demo_width demo_placement existing_glyph_def
        svg2glif_def demo_ext_def demo_request_def)
qed


lemma demo_output:
  "output_path (demo_opts f) ''Font.ufo'' (PStr ''uni0041'') = Inr ''Font.ufo/glyphs/uni0041.glif''"
  by (simp add: output_path_def demo_opts_def str_of_def)


lemma demo_main_new:
  "main demo_ext (demo_opts ''A.svg'') (demo_fs Map.empty)
     = (Inr (),
        (demo_fs Map.empty)
          (''Font.ufo/glyphs/uni0041.glif'' \<mapsto> Text ''<glyph/>'',
           ''Font.ufo/glyphs/contents.plist'' \<mapsto> Plist [''uni0041'' \<mapsto> PStr ''uni0041.glif''],
           ''Font.ufo/lib.plist''
              \<mapsto> Plist [''public.glyphOrder'' \<mapsto> PList [PStr ''space'', PStr ''uni0041'']]),
        [WriteText ''Font.ufo/glyphs/uni0041.glif'' ''<glyph/>'',
         PrintConvert (PStr ''Gayathri'') ''A'' ''Font.ufo/glyphs/uni0041.glif'',
         WritePlist ''Font.ufo/glyphs/contents.plist'' [''uni0041'' \<mapsto> PStr ''uni0041.glif''],
         PrintAdd (PStr ''Gayathri'') ''uni0041'' ''uni0041.glif'',
         WritePlist ''Font.ufo/lib.plist''
           [''public.glyphOrder'' \<mapsto> PList [PStr ''space'', PStr ''uni0041'']]])"
  by (simp add: main_def demo_load demo_lookup demo_convert)
     (simp add: demo_ctx_def demo_request_def demo_output register_def str_of_def Let_def
        contentsPlistPath_def libPath_def path_join_def readLib_def demo_fs_def demo_ext_def)

subsection \<open>The claims about a run\<close>

lemma read_inputs_InrD:
  assumes "read_inputs ext opts fs = Inr (cfg, wd, ht, name, ufo)"
  shows "\<exists>attrib. getConfig ext fs (config opts) = Inr cfg
       \<and> parseSvg ext fs (infile opts) = Inr attrib
       \<and> svg_dimension attrib ''width'' = Inr wd
       \<and> svg_dimension attrib ''height'' = Inr ht
       \<and> name = fst (splitext (basename (infile opts)))
       \<and> font_setting cfg ''ufo'' = Inr (PStr ufo)"
  using assms by (auto simp: read_inputs_def ebind_eq_Inr)

text \<open>
  Claim C5, as amended. When the inputs are read (lines 102 to 121 raise nothing) and
  the section \<open>svgs\<close> of the configuration has no entry for the base name of the
  outline file (its file name without directory and extension), \<open>main\<close> returns
  normally and the script itself writes nothing: its only event is the line that
  reports the skip, and the files after the run are exactly the files that the
  constructor of the library's writer, called at line 114 before the lookup, returned.
  Whether files are written at all is therefore the constructor's doing. The witness
  runs the example files with the outline \<open>B.svg\<close>, which the configuration does not
  map, and a constructor that writes nothing.
\<close>

theorem skip_writes_nothing:
  assumes "load ext opts fs = (Inr c, fs1)"
    and "getitem (c_config c) ''svgs'' = Inr (PDict kvs)"
    and "map_of kvs (PStr (c_name c)) = None"
  shows "main ext opts fs = (Inr (), fs1, [PrintSkip (c_name c)])
       \<and> UFOWriter_init ext (c_ufo c) fs = Inr fs1
       \<and> c_name c = fst (splitext (basename (infile opts)))"
proof -
  have "svg_lookup (c_config c) (c_name c) = Inl KeyError"
    using assms(2,3) by (simp add: svg_lookup_def getitem_def)
  then have "main ext opts fs = (Inr (), fs1, [PrintSkip (c_name c)])"
    using assms(1) by (rule main_skip [rotated])
  moreover have "UFOWriter_init ext (c_ufo c) fs = Inr fs1"
    using load_InrD [OF assms(1)] by simp
  moreover have "c_name c = fst (splitext (basename (infile opts)))"
    using load_InrD [OF assms(1)] read_inputs_name by blast
  ultimately show ?thesis by simp
qed

theorem skip_writes_nothing_witness:
  "load demo_ext (demo_opts ''B.svg'') (demo_fs Map.empty) = (Inr (demo_ctx ''B''), demo_fs Map.empty)
   \<and> getitem (c_config (demo_ctx ''B'')) ''svgs'' = Inr (PDict [(PStr ''A'', demo_entry 10 20)])
   \<and> map_of [(PStr ''A'', demo_entry 10 20)] (PStr (c_name (demo_ctx ''B''))) = None
   \<and> main demo_ext (demo_opts ''B.svg'') (demo_fs Map.empty)
       = (Inr (), demo_fs Map.empty, [PrintSkip ''B''])
   \<and> UFOWriter_init demo_ext ''Font.ufo'' (demo_fs Map.empty) = Inr (demo_fs Map.empty)
   \<and> ''B'' = fst (splitext (basename ''B.svg''))"
proof -
  have g: "getitem (c_config (demo_ctx ''B'')) ''svgs'' = Inr (PDict [(PStr ''A'', demo_entry 10 20)])"
    by (simp add: getitem_def demo_ctx_def demo_config_def)
  have m: "map_of [(PStr ''A'', demo_entry 10 20)] (PStr (c_name (demo_ctx ''B''))) = None"
    by (simp add: demo_ctx_def)
  from skip_writes_nothing [OF demo_load(2) g m, of Map.empty]
  show ?thesis using demo_load(2) [of Map.empty] g m
    by (simp add: demo_ctx_def demo_opts_def)
qed

text \<open>
  Claim C6. A KeyError of the lookup \<open>config['svgs'][name]\<close> of line 125 does not leave
  \<open>main\<close>: the run prints the skip line, returns without an error, and the exit status
  of the script is 0.
\<close>

theorem skip_is_success:
  assumes "load ext opts fs = (Inr c, fs1)"
    and "svg_lookup (c_config c) (c_name c) = Inl KeyError"
  shows "fst (main ext opts fs) = Inr ()
       \<and> exit_status (fst (main ext opts fs)) = 0
       \<and> snd (snd (main ext opts fs)) = [PrintSkip (c_name c)]"
  using main_skip [OF assms] by (simp add: exit_status_def)

theorem skip_is_success_witness:
  "load demo_ext (demo_opts ''B.svg'') (demo_fs Map.empty) = (Inr (demo_ctx ''B''), demo_fs Map.empty)
   \<and> svg_lookup (c_config (demo_ctx ''B'')) (c_name (demo_ctx ''B'')) = Inl KeyError
   \<and> fst (main demo_ext (demo_opts ''B.svg'') (demo_fs Map.empty)) = Inr ()
   \<and> exit_status (fst (main demo_ext (demo_opts ''B.svg'') (demo_fs Map.empty))) = 0
   \<and> snd (snd (main demo_ext (demo_opts ''B.svg'') (demo_fs Map.empty))) = [PrintSkip ''B'']"
  using skip_is_success [OF demo_load(2) demo_lookup(2), of Map.empty]
    demo_load(2) [of Map.empty] demo_lookup(2)
  by (simp add: demo_ctx_def exit_status_def)

text \<open>A run that succeeds has converted: its first event writes the text of the
  conversion.\<close>

lemma main_serialized:
  assumes "load ext opts fs = (Inr c, fs1)"
    and "svg_lookup (c_config c) (c_name c) = Inr svg_config"
    and "main ext opts fs = (Inr (), fs', ev)"
  shows "\<exists>rq us gw gn tf upm ver outline out rest.
           convert ext c svg_config fs1 = Inr rq
         \<and> unicodeVal svg_config = Inr us
         \<and> glyphWidth (c_width c) svg_config = Inr gw
         \<and> getitem svg_config ''glyph_name'' = Inr gn
         \<and> placement (c_config c) svg_config (c_height c) = Inr tf
         \<and> getattr (c_info c) ''unitsPerEm'' = Inr upm
         \<and> font_setting (c_config c) ''version'' = Inr ver
         \<and> SVGPath_fromstring ext (c_svg c) tf = Inr outline
         \<and> writeGlyphToString ext gn \<lparr>width = PFloat gw, height = upm, unicodes = us\<rparr> outline ver
             = Inr (r_glif rq)
         \<and> ev = WriteText out (r_glif rq) # rest"
proof -
  obtain rq out where rq: "convert ext c svg_config fs1 = Inr rq"
    and fin: "if r_existing rq
              then fs' = fs1(out \<mapsto> Text (r_glif rq))
                 \<and> ev = [WriteText out (r_glif rq), PrintConvert (c_familyName c) (c_name c) out]
              else register ext c rq (fs1(out \<mapsto> Text (r_glif rq)))
                     [WriteText out (r_glif rq), PrintConvert (c_familyName c) (c_name c) out]
                   = (Inr (), fs', ev)"
    using main_InrD [OF assms(3,1,2)] by blast
  have "\<exists>rest. ev = WriteText out (r_glif rq) # rest"
  proof (cases "r_existing rq")
    case True
    with fin show ?thesis by simp
  next
    case False
    with fin have "register ext c rq (fs1(out \<mapsto> Text (r_glif rq)))
        [WriteText out (r_glif rq), PrintConvert (c_familyName c) (c_name c) out]
      = (Inr (), fs', ev)" by simp
    from register_InrD [OF this] show ?thesis by auto
  qed
  then obtain rest where ev: "ev = WriteText out (r_glif rq) # rest" by blast
  from convert_InrD [OF rq] rq ev show ?thesis by blast
qed

text \<open>
  Claim C10. In every run that converts a glyph, the text the run writes to the output
  path is what the serializer \<open>writeGlyphToString\<close> returned for a glyph object \<open>g\<close>
  (the namespace built at line 51) whose width is a float and no integer: the float of
  line 133, that \<open>glyphWidth\<close> computes from the width of the outline, which is the
  float that \<open>float\<close> makes of the attribute \<open>width\<close>. The witness is the claim's
  example, \<open>width="100px"\<close>, left 10 and right 20, with a serializer that fails on
  every glyph object but the one of width 130.0, height 1000 and no code points, and
  that prints the width it was given.
\<close>

theorem advance_width_is_float:
  assumes "load ext opts fs = (Inr c, fs1)"
    and "svg_lookup (c_config c) (c_name c) = Inr svg_config"
    and "main ext opts fs = (Inr (), fs', ev)"
  shows "\<exists>attrib x g gn outline ver out glif rest.
           parseSvg ext fs (infile opts) = Inr attrib
         \<and> svg_dimension attrib ''width'' = Inr (c_width c)
         \<and> glyphWidth (c_width c) svg_config = Inr x
         \<and> width g = PFloat x \<and> (\<forall>n. width g \<noteq> PInt n)
         \<and> writeGlyphToString ext gn g outline ver = Inr glif
         \<and> ev = WriteText out glif # rest"
proof -
  obtain attrib where a: "parseSvg ext fs (infile opts) = Inr attrib"
    "svg_dimension attrib ''width'' = Inr (c_width c)"
    using load_InrD [OF assms(1)] read_inputs_InrD by blast
  obtain rq :: request and us gw gn upm ver outline out rest where
    w: "glyphWidth (c_width c) svg_config = Inr gw"
    and s: "writeGlyphToString ext gn \<lparr>width = PFloat gw, height = upm, unicodes = us\<rparr> outline ver
             = Inr (r_glif rq)"
    and ev: "ev = WriteText out (r_glif rq) # rest"
    using main_serialized [OF assms] by blast
  have "parseSvg ext fs (infile opts) = Inr attrib
      \<and> svg_dimension attrib ''width'' = Inr (c_width c)
      \<and> glyphWidth (c_width c) svg_config = Inr gw
      \<and> width \<lparr>width = PFloat gw, height = upm, unicodes = us\<rparr> = PFloat gw
      \<and> (\<forall>n. width \<lparr>width = PFloat gw, height = upm, unicodes = us\<rparr> \<noteq> PInt n)
      \<and> writeGlyphToString ext gn \<lparr>width = PFloat gw, height = upm, unicodes = us\<rparr> outline ver
           = Inr (r_glif rq)
      \<and> ev = WriteText out (r_glif rq) # rest"
    using a w s ev by simp
  then show ?thesis
    by (intro exI [of _ attrib] exI [of _ gw]
        exI [of _ "\<lparr>width = PFloat gw, height = upm, unicodes = us\<rparr>"] exI [of _ gn]
        exI [of _ outline] exI [of _ ver] exI [of _ out] exI [of _ "r_glif rq"] exI [of _ rest])
qed

text \<open>
  Claim C7. In every run that converts a glyph, the text the run writes to the output
  path is what the serializer returned for a glyph object \<open>g\<close> whose height is the
  attribute \<open>unitsPerEm\<close> of the font info that \<open>readInfo\<close> filled. The height of the
  outline goes into the transform handed to \<open>SVGPath.fromstring\<close> only: a conversion
  with any other outline height \<open>h\<close> hands the same glyph object \<open>g\<close> to the
  serializer, with the outline of the transform for \<open>h\<close>. The witness is the claim's
  example, units per em 1000 and an outline of height 200 (then 50): the serializer of
  the witness fails on every glyph object whose height is not 1000, and its text shows
  the last coefficient of the transform, 200 (then 50).
\<close>

theorem glyph_height_is_units_per_em:
  assumes "load ext opts fs = (Inr c, fs1)"
    and "svg_lookup (c_config c) (c_name c) = Inr svg_config"
    and "main ext opts fs = (Inr (), fs', ev)"
    and "convert ext (c\<lparr>c_height := h\<rparr>) svg_config fs1 = Inr rq'"
  shows "\<exists>upm g gn tf outline ver out glif rest tf' outline'.
           readInfo ext (c_ufo c) fs1 = Inr (c_info c)
         \<and> c_info c ''unitsPerEm'' = Some upm \<and> height g = upm
         \<and> placement (c_config c) svg_config (c_height c) = Inr tf
         \<and> SVGPath_fromstring ext (c_svg c) tf = Inr outline
         \<and> writeGlyphToString ext gn g outline ver = Inr glif
         \<and> ev = WriteText out glif # rest
         \<and> placement (c_config c) svg_config h = Inr tf'
         \<and> SVGPath_fromstring ext (c_svg c) tf' = Inr outline'
         \<and> writeGlyphToString ext gn g outline' ver = Inr (r_glif rq')"
proof -
  obtain rq :: request and us gw gn tf upm ver outline out rest where
    u: "unicodeVal svg_config = Inr us"
    and w: "glyphWidth (c_width c) svg_config = Inr gw"
    and n: "getitem svg_config ''glyph_name'' = Inr gn"
    and p: "placement (c_config c) svg_config (c_height c) = Inr tf"
    and i: "getattr (c_info c) ''unitsPerEm'' = Inr upm"
    and v: "font_setting (c_config c) ''version'' = Inr ver"
    and o: "SVGPath_fromstring ext (c_svg c) tf = Inr outline"
    and s: "writeGlyphToString ext gn \<lparr>width = PFloat gw, height = upm, unicodes = us\<rparr> outline ver
             = Inr (r_glif rq)"
    and ev: "ev = WriteText out (r_glif rq) # rest"
    using main_serialized [OF assms(1,2,3)] by blast
  obtain tf' outline' where
    p': "placement (c_config c) svg_config h = Inr tf'"
    and o': "SVGPath_fromstring ext (c_svg c) tf' = Inr outline'"
    and s': "writeGlyphToString ext gn \<lparr>width = PFloat gw, height = upm, unicodes = us\<rparr> outline' ver
             = Inr (r_glif rq')"
    using convert_InrD [OF assms(4)] u w n i v by auto
  have r: "readInfo ext (c_ufo c) fs1 = Inr (c_info c)"
    using load_InrD [OF assms(1)] by simp
  have m: "c_info c ''unitsPerEm'' = Some upm"
    using i by (simp add: getattr_def split: option.splits)
  have "readInfo ext (c_ufo c) fs1 = Inr (c_info c)
      \<and> c_info c ''unitsPerEm'' = Some upm
      \<and> height \<lparr>width = PFloat gw, height = upm, unicodes = us\<rparr> = upm
      \<and> placement (c_config c) svg_config (c_height c) = Inr tf
      \<and> SVGPath_fromstring ext (c_svg c) tf = Inr outline
      \<and> writeGlyphToString ext gn \<lparr>width = PFloat gw, height = upm, unicodes = us\<rparr> outline ver
           = Inr (r_glif rq)
      \<and> ev = WriteText out (r_glif rq) # rest
      \<and> placement (c_config c) svg_config h = Inr tf'
      \<and> SVGPath_fromstring ext (c_svg c) tf' = Inr outline'
      \<and> writeGlyphToString ext gn \<lparr>width = PFloat gw, height = upm, unicodes = us\<rparr> outline' ver
           = Inr (r_glif rq')"
    using r m p o s ev p' o' s' by simp
  then show ?thesis
    by (intro exI [of _ upm] exI [of _ "\<lparr>width = PFloat gw, height = upm, unicodes = us\<rparr>"]
        exI [of _ gn] exI [of _ tf] exI [of _ outline] exI [of _ ver] exI [of _ out]
        exI [of _ "r_glif rq"] exI [of _ rest] exI [of _ tf'] exI [of _ outline'])
qed

text \<open>
  Claim C3. When the glyph name \<open>g\<close> of the entry is not a key of the registry (the
  dictionary of \<open>glyphs/contents.plist\<close> as the run finds it) and the run succeeds, then
  afterwards the registry is the old one with \<open>g\<close> mapped to \<open>g.glif\<close>, and the glyph
  order of \<open>lib.plist\<close> is the old one with \<open>g\<close> appended: both contain the name.
\<close>

theorem new_glyph_registered:
  assumes "load ext opts fs = (Inr c, fs1)"
    and "svg_lookup (c_config c) (c_name c) = Inr svg_config"
    and "getitem svg_config ''glyph_name'' = Inr (PStr g)"
    and "registry fs1 (c_ufo c) = Some reg"
    and "reg g = None"
    and "main ext opts fs = (Inr (), fs', ev)"
  shows "registry fs' (c_ufo c) = Some (reg(g \<mapsto> PStr (g @ ''.glif'')))
       \<and> (\<exists>order. glyphOrder fs1 (c_ufo c) = Some order
                 \<and> glyphOrder fs' (c_ufo c) = Some (order @ [PStr g]))"
proof -
  obtain rq out where rq: "convert ext c svg_config fs1 = Inr rq"
    and out: "output_path opts (c_ufo c) (r_glyph_name rq) = Inr out"
    and fin: "if r_existing rq
              then fs' = fs1(out \<mapsto> Text (r_glif rq))
                 \<and> ev = [WriteText out (r_glif rq), PrintConvert (c_familyName c) (c_name c) out]
              else register ext c rq (fs1(out \<mapsto> Text (r_glif rq)))
                     [WriteText out (r_glif rq), PrintConvert (c_familyName c) (c_name c) out]
                   = (Inr (), fs', ev)"
    using main_InrD [OF assms(6,1,2)] by blast
  have rd: "readContents fs1 (contentsPlistPath (c_ufo c)) = Inr reg"
    using assms(4) by (auto simp: registry_def readContents_def split: option.splits fdata.splits)
  from convert_InrD [OF rq] assms(3) rd
  have gn: "r_glyph_name rq = PStr g" and cp: "r_contents rq = reg"
    and ex: "existing_glyph (PStr g) reg = Inr (r_existing rq)"
    by auto
  from ex assms(5) have "\<not> r_existing rq" by (simp add: existing_glyph_def)
  with fin have "register ext c rq (fs1(out \<mapsto> Text (r_glif rq)))
      [WriteText out (r_glif rq), PrintConvert (c_familyName c) (c_name c) out] = (Inr (), fs', ev)"
    by simp
  from register_InrD [OF this] gn cp obtain lib_obj order where
    rl: "readLib ext (fs1(out \<mapsto> Text (r_glif rq),
           contentsPlistPath (c_ufo c) \<mapsto> Plist (reg(g \<mapsto> PStr (g @ ''.glif''))))) (c_ufo c)
         = Inr lib_obj"
    and lo: "lib_obj ''public.glyphOrder'' = Some (PList order)"
    and fs': "fs' = fs1(out \<mapsto> Text (r_glif rq),
           contentsPlistPath (c_ufo c) \<mapsto> Plist (reg(g \<mapsto> PStr (g @ ''.glif''))),
           libPath (c_ufo c) \<mapsto> Plist (lib_obj(''public.glyphOrder'' \<mapsto> PList (order @ [PStr g]))))"
    by auto
  have ne: "libPath (c_ufo c) \<noteq> contentsPlistPath (c_ufo c)"
    by (rule libPath_neq_contentsPlistPath)
  have r: "registry fs' (c_ufo c) = Some (reg(g \<mapsto> PStr (g @ ''.glif'')))"
    using ne by (simp add: fs' registry_def)
  have o': "glyphOrder fs' (c_ufo c) = Some (order @ [PStr g])"
    by (simp add: fs' glyphOrder_def)
  have "fs1 (libPath (c_ufo c)) = Some (Plist lib_obj)"
    using rl lo ne
    by (auto simp: readLib_def split: option.splits fdata.splits if_splits)
  then have o: "glyphOrder fs1 (c_ufo c) = Some order"
    using lo by (simp add: glyphOrder_def)
  show ?thesis using r o o' by blast
qed


text \<open>The example font with library stand-ins that show what they are given: the path
  parser returns the last coefficient of the transform, and the serializer fails unless
  the glyph object has width 130.0, height 1000 and no code points, and then returns
  these values with the outline.\<close>

definition probe_ext :: "string extern" where
  "probe_ext = demo_ext
     \<lparr>SVGPath_fromstring := (\<lambda>svg t.
        if t = [Finite 1, Finite 0, Finite 0, Finite 1, Finite 10, Finite 200] then Inr ''f 200''
        else if t = [Finite 1, Finite 0, Finite 0, Finite 1, Finite 10, Finite 50] then Inr ''f 50''
        else Inl LibraryError),
      writeGlyphToString := (\<lambda>n g outline v.
        if g = \<lparr>width = PFloat (Finite 130), height = PInt 1000, unicodes = None\<rparr>
        then Inr (''width 130.0 height 1000 '' @ outline)
        else Inl LibraryError)\<rparr>"

definition probe_registry :: "string \<rightharpoonup> pyval" where
  "probe_registry = [''uni0041'' \<mapsto> PStr ''uni0041.glif'']"

lemma probe_read_inputs:
  "read_inputs probe_ext (demo_opts ''A.svg'') (demo_fs reg)
     = Inr (demo_config 10 20, Finite 100, Finite 200, ''A'', ''Font.ufo'')"
  by (simp add: read_inputs_def getConfig_def parseSvg_def read_text_def probe_ext_def demo_ext_def
      demo_opts_def demo_fs_def svg_dimension_def replace_demo float_demo name_demo
      font_setting_def getitem_def demo_config_def str_of_def)

lemma probe_load:
  "load probe_ext (demo_opts ''A.svg'') (demo_fs reg) = (Inr (demo_ctx ''A''), demo_fs reg)"
  by (simp add: load_def probe_read_inputs)
     (simp add: probe_ext_def demo_ext_def getattr_def demo_info_def read_text_def demo_fs_def
        demo_opts_def demo_ctx_def)

lemma probe_convert:
  "convert probe_ext (demo_ctx ''A'') (demo_entry 10 20) (demo_fs reg)
     = Inr \<lparr>r_glyph_name = PStr ''uni0041'', r_existing = (reg ''uni0041'' \<noteq> None),
            r_contents = reg, r_glif = ''width 130.0 height 1000 f 200''\<rparr>"
  "convert probe_ext ((demo_ctx ''A'')\<lparr>c_height := Finite 50\<rparr>) (demo_entry 10 20) (demo_fs reg)
     = Inr \<lparr>r_glyph_name = PStr ''uni0041'', r_existing = (reg ''uni0041'' \<noteq> None),
            r_contents = reg, r_glif = ''width 130.0 height 1000 f 50''\<rparr>"
proof -
  have u: "unicodeVal (demo_entry 10 20) = Inr None"
    by (simp add: unicodeVal_def contains_def demo_entry_def)
  have c: "readContents (demo_fs reg) (contentsPlistPath ''Font.ufo'') = Inr reg"
    by (simp add: readContents_def contentsPlistPath_def demo_fs_def)
  have g: "getitem (demo_entry 10 20) ''glyph_name'' = Inr (PStr ''uni0041'')"
    by (simp add: getitem_def demo_entry_def)
  have v: "font_setting (demo_config 10 20) ''version'' = Inr (PInt 2)"
    by (simp add: font_setting_def getitem_def demo_config_def)
  have i: "getattr demo_info ''unitsPerEm'' = Inr (PInt 1000)"
    by (simp add: getattr_def demo_info_def)
  show "convert probe_ext (demo_ctx ''A'') (demo_entry 10 20) (demo_fs reg)
     = Inr \<lparr>r_glyph_name = PStr ''uni0041'', r_existing = (reg ''uni0041'' \<noteq> None),
            r_contents = reg, r_glif = ''width 130.0 height 1000 f 200''\<rparr>"
    by (simp add: convert_def demo_ctx_def u c g v i demo_width demo_placement existing_glyph_def
        svg2glif_def probe_ext_def)
  show "convert probe_ext ((demo_ctx ''A'')\<lparr>c_height := Finite 50\<rparr>) (demo_entry 10 20)
       (demo_fs reg)
     = Inr \<lparr>r_glyph_name = PStr ''uni0041'', r_existing = (reg ''uni0041'' \<noteq> None),
            r_contents = reg, r_glif = ''width 130.0 height 1000 f 50''\<rparr>"
    by (simp add: convert_def demo_ctx_def u c g v i demo_width demo_placement existing_glyph_def
        svg2glif_def probe_ext_def)
qed

lemma probe_main:
  "main probe_ext (demo_opts ''A.svg'') (demo_fs probe_registry)
     = (Inr (),
        (demo_fs probe_registry)
          (''Font.ufo/glyphs/uni0041.glif'' \<mapsto> Text ''width 130.0 height 1000 f 200''),
        [WriteText ''Font.ufo/glyphs/uni0041.glif'' ''width 130.0 height 1000 f 200'',
         PrintConvert (PStr ''Gayathri'') ''A'' ''Font.ufo/glyphs/uni0041.glif''])"
  by (simp add: main_def probe_load demo_lookup probe_convert)
     (simp add: demo_ctx_def demo_output probe_registry_def)

lemma probe_serializer:
  "writeGlyphToString probe_ext (PStr ''uni0041'')
     \<lparr>width = PFloat (Finite 130), height = PInt 1000, unicodes = None\<rparr> ''f 200'' (PInt 2)
     = Inr ''width 130.0 height 1000 f 200''"
  "writeGlyphToString probe_ext (PStr ''uni0041'')
     \<lparr>width = PInt 130, height = PInt 1000, unicodes = None\<rparr> ''f 200'' (PInt 2)
     = Inl LibraryError"
  "writeGlyphToString probe_ext (PStr ''uni0041'')
     \<lparr>width = PFloat (Finite 130), height = PFloat (Finite 200), unicodes = None\<rparr> ''f 200'' (PInt 2)
     = Inl LibraryError"
  by (simp_all add: probe_ext_def)

theorem advance_width_is_float_witness:
  "load probe_ext (demo_opts ''A.svg'') (demo_fs probe_registry)
     = (Inr (demo_ctx ''A''), demo_fs probe_registry)
   \<and> svg_lookup (c_config (demo_ctx ''A'')) (c_name (demo_ctx ''A'')) = Inr (demo_entry 10 20)
   \<and> main probe_ext (demo_opts ''A.svg'') (demo_fs probe_registry)
       = (Inr (),
          (demo_fs probe_registry)
            (''Font.ufo/glyphs/uni0041.glif'' \<mapsto> Text ''width 130.0 height 1000 f 200''),
          [WriteText ''Font.ufo/glyphs/uni0041.glif'' ''width 130.0 height 1000 f 200'',
           PrintConvert (PStr ''Gayathri'') ''A'' ''Font.ufo/glyphs/uni0041.glif''])
   \<and> (\<exists>attrib x g gn outline ver out glif rest.
           parseSvg probe_ext (demo_fs probe_registry) (infile (demo_opts ''A.svg'')) = Inr attrib
         \<and> svg_dimension attrib ''width'' = Inr (c_width (demo_ctx ''A''))
         \<and> glyphWidth (c_width (demo_ctx ''A'')) (demo_entry 10 20) = Inr x
         \<and> width g = PFloat x \<and> (\<forall>n. width g \<noteq> PInt n)
         \<and> writeGlyphToString probe_ext gn g outline ver = Inr glif
         \<and> [WriteText ''Font.ufo/glyphs/uni0041.glif'' ''width 130.0 height 1000 f 200'',
             PrintConvert (PStr ''Gayathri'') ''A'' ''Font.ufo/glyphs/uni0041.glif'']
            = WriteText out glif # rest)
   \<and> svg_dimension [''width'' \<mapsto> ''100px'', ''height'' \<mapsto> ''200px''] ''width'' = Inr (Finite 100)
   \<and> glyphWidth (Finite 100) (demo_entry 10 20) = Inr (Finite 130)
   \<and> writeGlyphToString probe_ext (PStr ''uni0041'')
         \<lparr>width = PFloat (Finite 130), height = PInt 1000, unicodes = None\<rparr> ''f 200'' (PInt 2)
       = Inr ''width 130.0 height 1000 f 200''
   \<and> writeGlyphToString probe_ext (PStr ''uni0041'')
         \<lparr>width = PInt 130, height = PInt 1000, unicodes = None\<rparr> ''f 200'' (PInt 2)
       = Inl LibraryError"
proof -
  have d: "svg_dimension [''width'' \<mapsto> ''100px'', ''height'' \<mapsto> ''200px''] ''width''
             = Inr (Finite 100)"
    by (simp add: svg_dimension_def replace_demo float_demo)
  note t = advance_width_is_float [OF probe_load demo_lookup(1) probe_main]
  show ?thesis
    apply (insert probe_load [of probe_registry] demo_lookup(1) probe_main t d demo_width
        probe_serializer(1,2))
    apply (intro conjI)
    apply assumption+
    done
qed

theorem glyph_height_is_units_per_em_witness:
  "load probe_ext (demo_opts ''A.svg'') (demo_fs probe_registry)
     = (Inr (demo_ctx ''A''), demo_fs probe_registry)
   \<and> svg_lookup (c_config (demo_ctx ''A'')) (c_name (demo_ctx ''A'')) = Inr (demo_entry 10 20)
   \<and> main probe_ext (demo_opts ''A.svg'') (demo_fs probe_registry)
       = (Inr (),
          (demo_fs probe_registry)
            (''Font.ufo/glyphs/uni0041.glif'' \<mapsto> Text ''width 130.0 height 1000 f 200''),
          [WriteText ''Font.ufo/glyphs/uni0041.glif'' ''width 130.0 height 1000 f 200'',
           PrintConvert (PStr ''Gayathri'') ''A'' ''Font.ufo/glyphs/uni0041.glif''])
   \<and> convert probe_ext ((demo_ctx ''A'')\<lparr>c_height := Finite 50\<rparr>) (demo_entry 10 20)
         (demo_fs probe_registry)
       = Inr \<lparr>r_glyph_name = PStr ''uni0041'', r_existing = (probe_registry ''uni0041'' \<noteq> None),
              r_contents = probe_registry, r_glif = ''width 130.0 height 1000 f 50''\<rparr>
   \<and> (\<exists>upm g gn tf outline ver out glif rest tf' outline'.
           readInfo probe_ext (c_ufo (demo_ctx ''A'')) (demo_fs probe_registry)
             = Inr (c_info (demo_ctx ''A''))
         \<and> c_info (demo_ctx ''A'') ''unitsPerEm'' = Some upm \<and> height g = upm
         \<and> placement (c_config (demo_ctx ''A'')) (demo_entry 10 20) (c_height (demo_ctx ''A''))
             = Inr tf
         \<and> SVGPath_fromstring probe_ext (c_svg (demo_ctx ''A'')) tf = Inr outline
         \<and> writeGlyphToString probe_ext gn g outline ver = Inr glif
         \<and> [WriteText ''Font.ufo/glyphs/uni0041.glif'' ''width 130.0 height 1000 f 200'',
             PrintConvert (PStr ''Gayathri'') ''A'' ''Font.ufo/glyphs/uni0041.glif'']
            = WriteText out glif # rest
         \<and> placement (c_config (demo_ctx ''A'')) (demo_entry 10 20) (Finite 50) = Inr tf'
         \<and> SVGPath_fromstring probe_ext (c_svg (demo_ctx ''A'')) tf' = Inr outline'
         \<and> writeGlyphToString probe_ext gn g outline' ver
             = Inr (r_glif \<lparr>r_glyph_name = PStr ''uni0041'',
                     r_existing = (probe_registry ''uni0041'' \<noteq> None),
                     r_contents = probe_registry, r_glif = ''width 130.0 height 1000 f 50''\<rparr>))
   \<and> c_height (demo_ctx ''A'') = Finite 200
   \<and> c_info (demo_ctx ''A'') ''unitsPerEm'' = Some (PInt 1000)
   \<and> placement (c_config (demo_ctx ''A'')) (demo_entry 10 20) (Finite 200)
       = Inr [Finite 1, Finite 0, Finite 0, Finite 1, Finite 10, Finite 200]
   \<and> writeGlyphToString probe_ext (PStr ''uni0041'')
         \<lparr>width = PFloat (Finite 130), height = PInt 1000, unicodes = None\<rparr> ''f 200'' (PInt 2)
       = Inr ''width 130.0 height 1000 f 200''
   \<and> writeGlyphToString probe_ext (PStr ''uni0041'')
         \<lparr>width = PFloat (Finite 130), height = PFloat (Finite 200), unicodes = None\<rparr> ''f 200''
         (PInt 2)
       = Inl LibraryError"
proof -
  have h: "c_height (demo_ctx ''A'') = Finite 200"
    and i: "c_info (demo_ctx ''A'') ''unitsPerEm'' = Some (PInt 1000)"
    and p: "placement (c_config (demo_ctx ''A'')) (demo_entry 10 20) (Finite 200)
       = Inr [Finite 1, Finite 0, Finite 0, Finite 1, Finite 10, Finite 200]"
    by (simp_all add: demo_ctx_def demo_info_def demo_placement)
  note t = glyph_height_is_units_per_em [OF probe_load demo_lookup(1) probe_main probe_convert(2)]
  show ?thesis
    apply (insert probe_load [of probe_registry] demo_lookup(1) probe_main
        probe_convert(2) [of probe_registry] t h i p probe_serializer(1,3))
    apply (intro conjI)
    apply assumption+
    done
qed

text \<open>The files of the example after the run that registers \<open>uni0041\<close>.\<close>

definition demo_after_new :: fs where
  "demo_after_new = (demo_fs Map.empty)
     (''Font.ufo/glyphs/uni0041.glif'' \<mapsto> Text ''<glyph/>'',
      ''Font.ufo/glyphs/contents.plist'' \<mapsto> Plist [''uni0041'' \<mapsto> PStr ''uni0041.glif''],
      ''Font.ufo/lib.plist''
         \<mapsto> Plist [''public.glyphOrder'' \<mapsto> PList [PStr ''space'', PStr ''uni0041'']])"

theorem new_glyph_registered_witness:
  "load demo_ext (demo_opts ''A.svg'') (demo_fs Map.empty)
     = (Inr (demo_ctx ''A''), demo_fs Map.empty)
   \<and> svg_lookup (c_config (demo_ctx ''A'')) (c_name (demo_ctx ''A'')) = Inr (demo_entry 10 20)
   \<and> getitem (demo_entry 10 20) ''glyph_name'' = Inr (PStr ''uni0041'')
   \<and> registry (demo_fs Map.empty) ''Font.ufo'' = Some Map.empty
   \<and> fst (main demo_ext (demo_opts ''A.svg'') (demo_fs Map.empty)) = Inr ()
   \<and> fst (snd (main demo_ext (demo_opts ''A.svg'') (demo_fs Map.empty))) = demo_after_new
   \<and> registry demo_after_new ''Font.ufo'' = Some [''uni0041'' \<mapsto> PStr ''uni0041.glif'']
   \<and> glyphOrder (demo_fs Map.empty) ''Font.ufo'' = Some [PStr ''space'']
   \<and> glyphOrder demo_after_new ''Font.ufo'' = Some [PStr ''space'', PStr ''uni0041'']"
proof -
  have g: "getitem (demo_entry 10 20) ''glyph_name'' = Inr (PStr ''uni0041'')"
    by (simp add: getitem_def demo_entry_def)
  have r: "registry (demo_fs Map.empty) (c_ufo (demo_ctx ''A'')) = Some Map.empty"
    by (simp add: registry_def contentsPlistPath_def demo_fs_def demo_ctx_def)
  have o: "glyphOrder (demo_fs Map.empty) ''Font.ufo'' = Some [PStr ''space'']"
    by (simp add: glyphOrder_def libPath_def path_join_def demo_fs_def)
  have m: "main demo_ext (demo_opts ''A.svg'') (demo_fs Map.empty)
             = (Inr (), demo_after_new,
                [WriteText ''Font.ufo/glyphs/uni0041.glif'' ''<glyph/>'',
                 PrintConvert (PStr ''Gayathri'') ''A'' ''Font.ufo/glyphs/uni0041.glif'',
                 WritePlist ''Font.ufo/glyphs/contents.plist'' [''uni0041'' \<mapsto> PStr ''uni0041.glif''],
                 PrintAdd (PStr ''Gayathri'') ''uni0041'' ''uni0041.glif'',
                 WritePlist ''Font.ufo/lib.plist''
                   [''public.glyphOrder'' \<mapsto> PList [PStr ''space'', PStr ''uni0041'']]])"
    unfolding demo_after_new_def by (rule demo_main_new)
  from new_glyph_registered [OF demo_load(1) demo_lookup(1) g r _ m]
  have "registry demo_after_new (c_ufo (demo_ctx ''A''))
          = Some [''uni0041'' \<mapsto> PStr ''uni0041.glif'']
      \<and> (\<exists>order. glyphOrder (demo_fs Map.empty) (c_ufo (demo_ctx ''A'')) = Some order
             \<and> glyphOrder demo_after_new (c_ufo (demo_ctx ''A'')) = Some (order @ [PStr ''uni0041'']))"
    by simp
  then show ?thesis using demo_load(1) [of Map.empty] demo_lookup(1) g r o m
    by (auto simp: demo_ctx_def)
qed




text \<open>The example font with a writer whose constructor writes \<open>metainfo.plist\<close> into
  the font directory, the files this constructor leaves, and a command line that names
  the output path.\<close>

definition writing_ext :: "string extern" where
  "writing_ext = demo_ext
     \<lparr>UFOWriter_init := (\<lambda>p fs. Inr (fs(path_join p ''metainfo.plist''
         \<mapsto> Plist [''creator'' \<mapsto> PStr ''org.robofab.ufoLib'', ''formatVersion'' \<mapsto> PInt 3])))\<rparr>"

definition demo_after_writer :: "(string \<rightharpoonup> pyval) \<Rightarrow> fs" where
  "demo_after_writer reg = (demo_fs reg)(''Font.ufo/metainfo.plist''
     \<mapsto> Plist [''creator'' \<mapsto> PStr ''org.robofab.ufoLib'', ''formatVersion'' \<mapsto> PInt 3])"


lemma writing_read_inputs:
  "read_inputs writing_ext (demo_opts ''A.svg'') (demo_fs reg)
     = Inr (demo_config 10 20, Finite 100, Finite 200, ''A'', ''Font.ufo'')"
  "read_inputs writing_ext (demo_opts ''B.svg'') (demo_fs reg)
     = Inr (demo_config 10 20, Finite 100, Finite 200, ''B'', ''Font.ufo'')"
  by (simp_all add: read_inputs_def getConfig_def parseSvg_def read_text_def writing_ext_def
      demo_ext_def demo_opts_def demo_fs_def svg_dimension_def replace_demo float_demo name_demo
      font_setting_def getitem_def demo_config_def str_of_def)

lemma writing_load:
  "load writing_ext (demo_opts ''A.svg'') (demo_fs reg) = (Inr (demo_ctx ''A''), demo_after_writer reg)"
  "load writing_ext (demo_opts ''B.svg'') (demo_fs reg) = (Inr (demo_ctx ''B''), demo_after_writer reg)"
  by (simp_all add: load_def writing_read_inputs)
     (simp_all add: writing_ext_def demo_ext_def getattr_def demo_info_def read_text_def demo_fs_def
        demo_opts_def demo_ctx_def demo_after_writer_def path_join_def)


lemma writing_main_skip:
  "main writing_ext (demo_opts ''B.svg'') (demo_fs Map.empty)
     = (Inr (), demo_after_writer Map.empty, [PrintSkip ''B''])"
  by (simp add: main_def writing_load demo_lookup) (simp add: demo_ctx_def)





text \<open>
  Claim C5 as it is stated (no file is written at all) fails. The writer is constructed
  at line 114, before the lookup of line 125, and what it does to the font directory is
  the library's choice. With a constructor that writes \<open>metainfo.plist\<close>, every
  premise of the claim holds for the unmapped outline \<open>B.svg\<close>, the run reports the
  skip, and the font directory holds a file afterwards that it did not hold before.
\<close>

theorem skip_writes_counterexample:
  "load writing_ext (demo_opts ''B.svg'') (demo_fs Map.empty)
     = (Inr (demo_ctx ''B''), demo_after_writer Map.empty)
   \<and> getitem (c_config (demo_ctx ''B'')) ''svgs'' = Inr (PDict [(PStr ''A'', demo_entry 10 20)])
   \<and> map_of [(PStr ''A'', demo_entry 10 20)] (PStr (c_name (demo_ctx ''B''))) = None
   \<and> main writing_ext (demo_opts ''B.svg'') (demo_fs Map.empty)
       = (Inr (), demo_after_writer Map.empty, [PrintSkip ''B''])
   \<and> demo_fs Map.empty ''Font.ufo/metainfo.plist'' = None
   \<and> demo_after_writer Map.empty ''Font.ufo/metainfo.plist''
       = Some (Plist [''creator'' \<mapsto> PStr ''org.robofab.ufoLib'', ''formatVersion'' \<mapsto> PInt 3])
   \<and> fst (snd (main writing_ext (demo_opts ''B.svg'') (demo_fs Map.empty))) \<noteq> demo_fs Map.empty"
proof -
  have g: "getitem (c_config (demo_ctx ''B'')) ''svgs'' = Inr (PDict [(PStr ''A'', demo_entry 10 20)])"
    by (simp add: getitem_def demo_ctx_def demo_config_def)
  have m: "map_of [(PStr ''A'', demo_entry 10 20)] (PStr (c_name (demo_ctx ''B''))) = None"
    by (simp add: demo_ctx_def)
  have b: "demo_fs Map.empty ''Font.ufo/metainfo.plist'' = None"
    by (simp add: demo_fs_def)
  have a: "demo_after_writer Map.empty ''Font.ufo/metainfo.plist''
       = Some (Plist [''creator'' \<mapsto> PStr ''org.robofab.ufoLib'', ''formatVersion'' \<mapsto> PInt 3])"
    by (simp add: demo_after_writer_def)
  have ne: "demo_after_writer Map.empty \<noteq> demo_fs Map.empty"
    using a b by (metis option.distinct(1))
  show ?thesis
    using writing_load(2) [of Map.empty] g m writing_main_skip a b ne by simp
qed


subsection \<open>The outline reader\<close>

lemma replace_px_suffix:
  "CHR ''p'' \<notin> set n \<Longrightarrow> replace ''px'' '' '' (n @ ''px'') = n @ '' ''"
proof (induction n)
  case Nil
  show ?case by code_simp
next
  case (Cons c n)
  then have "replace ''px'' '' '' (n @ ''px'') = n @ '' ''" and "c \<noteq> CHR ''p''" by auto
  then show ?case by (subst replace.simps) simp
qed

lemma strip_append_space:
  assumes "isspace c"
  shows "strip (s @ [c]) = strip s"
proof (cases "\<forall>x\<in>set s. isspace x")
  case True
  have a: "dropWhile isspace s = []"
    using True by (simp add: dropWhile_eq_Nil_conv)
  have b: "dropWhile isspace (s @ [c]) = []"
    using True assms by (simp add: dropWhile_append2)
  show ?thesis by (simp add: strip_def a b)
next
  case False
  then obtain x where "x \<in> set s" and "\<not> isspace x" by blast
  then have "dropWhile isspace (s @ [c]) = dropWhile isspace s @ [c]"
    by (rule dropWhile_append1)
  then show ?thesis using assms by (simp add: strip_def)
qed

lemma float_of_str_space: "float_of_str (n @ '' '') = float_of_str n"
  using strip_append_space [of "CHR '' ''" n] by (simp add: float_of_str_def isspace_def)

lemma main_load_Inl:
  "load ext opts fs = (Inl e, fs1) \<Longrightarrow> main ext opts fs = (Inl e, fs1, [])"
  by (simp add: main_def)

lemma load_read_inputs_Inl:
  "read_inputs ext opts fs = Inl e \<Longrightarrow> load ext opts fs = (Inl e, fs)"
  by (simp add: load_def)

text \<open>
  Claim C9. Lines 107 to 109 read an attribute \<open>width\<close> or \<open>height\<close> by replacing
  \<open>px\<close> with a space and applying \<open>float\<close>: an attribute that is a number \<open>n\<close>
  followed by the unit \<open>px\<close> reads as the float of \<open>n\<close>. When the outline is not
  well-formed, \<open>main\<close> ends with the parser's ParseError; when what is left of \<open>width\<close>
  or \<open>height\<close> without the unit is not a float literal, \<open>main\<close> ends with a ValueError.
  In both cases nothing is printed or written and the exit status is 1.
\<close>

theorem outline_reader:
  "(attrib k = Some (n @ ''px'') \<and> CHR ''p'' \<notin> set n \<longrightarrow>
      svg_dimension attrib k = (case float_of_str n of None \<Rightarrow> Inl ValueError | Some x \<Rightarrow> Inr x))
   \<and> (getConfig ext fs (config opts) = Inr cfg \<and> read_text fs (infile opts) = Inr s
        \<and> etree_parse ext s = None \<longrightarrow>
      main ext opts fs = (Inl ParseError, fs, []) \<and> exit_status (fst (main ext opts fs)) = 1)
   \<and> (getConfig ext fs (config opts) = Inr cfg \<and> parseSvg ext fs (infile opts) = Inr attrib
        \<and> attrib ''width'' = Some v \<and> float_of_str (replace ''px'' '' '' v) = None \<longrightarrow>
      main ext opts fs = (Inl ValueError, fs, []) \<and> exit_status (fst (main ext opts fs)) = 1)
   \<and> (getConfig ext fs (config opts) = Inr cfg \<and> parseSvg ext fs (infile opts) = Inr attrib
        \<and> svg_dimension attrib ''width'' = Inr w
        \<and> attrib ''height'' = Some v \<and> float_of_str (replace ''px'' '' '' v) = None \<longrightarrow>
      main ext opts fs = (Inl ValueError, fs, []) \<and> exit_status (fst (main ext opts fs)) = 1)"
proof (intro conjI impI)
  assume "attrib k = Some (n @ ''px'') \<and> CHR ''p'' \<notin> set n"
  then show "svg_dimension attrib k
      = (case float_of_str n of None \<Rightarrow> Inl ValueError | Some x \<Rightarrow> Inr x)"
    by (simp add: svg_dimension_def replace_px_suffix float_of_str_space)
next
  assume a: "getConfig ext fs (config opts) = Inr cfg \<and> read_text fs (infile opts) = Inr s
        \<and> etree_parse ext s = None"
  then have "read_inputs ext opts fs = Inl ParseError"
    by (simp add: read_inputs_def parseSvg_def)
  then have m: "main ext opts fs = (Inl ParseError, fs, [])"
    by (simp add: load_read_inputs_Inl main_load_Inl)
  then show "main ext opts fs = (Inl ParseError, fs, [])" .
  from m show "exit_status (fst (main ext opts fs)) = 1" by (simp add: exit_status_def)
next
  assume a: "getConfig ext fs (config opts) = Inr cfg \<and> parseSvg ext fs (infile opts) = Inr attrib
        \<and> attrib ''width'' = Some v \<and> float_of_str (replace ''px'' '' '' v) = None"
  then have "read_inputs ext opts fs = Inl ValueError"
    by (simp add: read_inputs_def svg_dimension_def)
  then have m: "main ext opts fs = (Inl ValueError, fs, [])"
    by (simp add: load_read_inputs_Inl main_load_Inl)
  then show "main ext opts fs = (Inl ValueError, fs, [])" .
  from m show "exit_status (fst (main ext opts fs)) = 1" by (simp add: exit_status_def)
next
  assume a: "getConfig ext fs (config opts) = Inr cfg \<and> parseSvg ext fs (infile opts) = Inr attrib
        \<and> svg_dimension attrib ''width'' = Inr w
        \<and> attrib ''height'' = Some v \<and> float_of_str (replace ''px'' '' '' v) = None"
  then have "read_inputs ext opts fs = Inl ValueError"
    by (simp add: read_inputs_def svg_dimension_def)
  then have m: "main ext opts fs = (Inl ValueError, fs, [])"
    by (simp add: load_read_inputs_Inl main_load_Inl)
  then show "main ext opts fs = (Inl ValueError, fs, [])" .
  from m show "exit_status (fst (main ext opts fs)) = 1" by (simp add: exit_status_def)
qed


text \<open>The example font with another answer of the XML parser: \<open>None\<close> for an outline
  that is not well-formed, or the attributes of the root.\<close>

definition demo_ext_attrib :: "(string \<rightharpoonup> string) option \<Rightarrow> string extern" where
  "demo_ext_attrib a = demo_ext\<lparr>etree_parse := (\<lambda>s. a)\<rparr>"

lemma literal_bad:
  "literal_value (strip ''100'') = Some (Finite 100)"
  "literal_value (strip (replace ''px'' '' '' ''wide'')) = None"
  "literal_value (strip (replace ''px'' '' '' ''tall'')) = None"
  by code_simp+

lemma float_bad:
  "float_of_str ''100'' = Some (Finite 100)"
  "float_of_str (replace ''px'' '' '' ''wide'') = None"
  "float_of_str (replace ''px'' '' '' ''tall'') = None"
  by (simp_all add: float_of_str_def literal_bad b64_small)

lemma demo_getConfig:
  "getConfig (demo_ext_attrib a) (demo_fs Map.empty) (config (demo_opts f)) = Inr (demo_config 10 20)"
  by (simp add: getConfig_def read_text_def demo_fs_def demo_opts_def demo_ext_attrib_def
      demo_ext_def)

lemma demo_parseSvg:
  "parseSvg (demo_ext_attrib (Some a)) (demo_fs Map.empty) (infile (demo_opts ''A.svg'')) = Inr a"
  by (simp add: parseSvg_def read_text_def demo_fs_def demo_opts_def demo_ext_attrib_def
      demo_ext_def)

theorem outline_reader_witness:
  "CHR ''p'' \<notin> set ''100'' \<and> float_of_str ''100'' = Some (Finite 100)
   \<and> svg_dimension [''width'' \<mapsto> ''100px'', ''height'' \<mapsto> ''200px''] ''width'' = Inr (Finite 100)
   \<and> read_text (demo_fs Map.empty) (infile (demo_opts ''A.svg'')) = Inr ''<svg/>''
   \<and> etree_parse (demo_ext_attrib None) ''<svg/>'' = None
   \<and> main (demo_ext_attrib None) (demo_opts ''A.svg'') (demo_fs Map.empty)
       = (Inl ParseError, demo_fs Map.empty, [])
   \<and> exit_status (fst (main (demo_ext_attrib None) (demo_opts ''A.svg'') (demo_fs Map.empty))) = 1
   \<and> float_of_str (replace ''px'' '' '' ''wide'') = None
   \<and> main (demo_ext_attrib (Some [''width'' \<mapsto> ''wide'', ''height'' \<mapsto> ''200px'']))
         (demo_opts ''A.svg'') (demo_fs Map.empty)
       = (Inl ValueError, demo_fs Map.empty, [])
   \<and> svg_dimension [''width'' \<mapsto> ''100px'', ''height'' \<mapsto> ''tall''] ''width'' = Inr (Finite 100)
   \<and> float_of_str (replace ''px'' '' '' ''tall'') = None
   \<and> main (demo_ext_attrib (Some [''width'' \<mapsto> ''100px'', ''height'' \<mapsto> ''tall'']))
         (demo_opts ''A.svg'') (demo_fs Map.empty)
       = (Inl ValueError, demo_fs Map.empty, [])"
proof -
  have p: "CHR ''p'' \<notin> set ''100''" by simp
  have rt: "read_text (demo_fs Map.empty) (infile (demo_opts ''A.svg'')) = Inr ''<svg/>''"
    by (simp add: read_text_def demo_fs_def demo_opts_def)
  have en: "etree_parse (demo_ext_attrib None) ''<svg/>'' = None"
    by (simp add: demo_ext_attrib_def)
  have d: "svg_dimension [''width'' \<mapsto> ''100px'', ''height'' \<mapsto> ''tall''] ''width''
             = Inr (Finite 100)"
    by (simp add: svg_dimension_def replace_demo float_demo)
  note a = outline_reader [of "[''width'' \<mapsto> ''100px'', ''height'' \<mapsto> ''200px'']" "''width''"
      "''100''"]
  note b = outline_reader [of _ _ _ "demo_ext_attrib None" "demo_fs Map.empty"
      "demo_opts ''A.svg''" "demo_config 10 20" "''<svg/>''"]
  note c = outline_reader [of "[''width'' \<mapsto> ''wide'', ''height'' \<mapsto> ''200px'']" _ _
      "demo_ext_attrib (Some [''width'' \<mapsto> ''wide'', ''height'' \<mapsto> ''200px''])"
      "demo_fs Map.empty" "demo_opts ''A.svg''" "demo_config 10 20" _ "''wide''"]
  note e = outline_reader [of "[''width'' \<mapsto> ''100px'', ''height'' \<mapsto> ''tall'']" _ _
      "demo_ext_attrib (Some [''width'' \<mapsto> ''100px'', ''height'' \<mapsto> ''tall''])"
      "demo_fs Map.empty" "demo_opts ''A.svg''" "demo_config 10 20" _ "''tall''" "Finite 100"]
  have 1: "svg_dimension [''width'' \<mapsto> ''100px'', ''height'' \<mapsto> ''200px''] ''width''
             = Inr (Finite 100)"
    using a [THEN conjunct1] p by (simp add: float_bad)
  have 2: "main (demo_ext_attrib None) (demo_opts ''A.svg'') (demo_fs Map.empty)
             = (Inl ParseError, demo_fs Map.empty, [])
         \<and> exit_status (fst (main (demo_ext_attrib None) (demo_opts ''A.svg'')
              (demo_fs Map.empty))) = 1"
    using b [THEN conjunct2, THEN conjunct1] demo_getConfig rt en by blast
  have 3: "main (demo_ext_attrib (Some [''width'' \<mapsto> ''wide'', ''height'' \<mapsto> ''200px'']))
         (demo_opts ''A.svg'') (demo_fs Map.empty) = (Inl ValueError, demo_fs Map.empty, [])"
    using c [THEN conjunct2, THEN conjunct2, THEN conjunct1] demo_getConfig demo_parseSvg
      float_bad(2) by simp
  have 4: "main (demo_ext_attrib (Some [''width'' \<mapsto> ''100px'', ''height'' \<mapsto> ''tall'']))
         (demo_opts ''A.svg'') (demo_fs Map.empty) = (Inl ValueError, demo_fs Map.empty, [])"
    using e [THEN conjunct2, THEN conjunct2, THEN conjunct2] demo_getConfig demo_parseSvg
      float_bad(3) d by simp
  show ?thesis using p float_bad 1 rt en 2 3 d 4 by blast
qed

end
